theory Spec2Isabelle
  imports Main "HOL-Library.Word"
begin

section \<open>Channel membership: data model\<close>

text \<open>
  A shallow embedding of \<^verbatim>\<open>pkg/fab/channel/membership/membership.go\<close>.
  Go byte slices are lists of 8-bit words, \<^verbatim>\<open>int32\<close> is a 32-bit word, Go's
  \<^verbatim>\<open>int\<close>, certificate serial numbers and instants of time are integers.
\<close>

type_synonym bytes = "8 word list"

text \<open>
  Error values.  The first four constructors are the constructors of package
  \<^verbatim>\<open>github.com/pkg/errors\<close> that the file uses: \<^verbatim>\<open>errors.New(msg)\<close>,
  \<^verbatim>\<open>errors.Errorf(format, args)\<close>, \<^verbatim>\<open>errors.Wrap(err, msg)\<close> and
  \<^verbatim>\<open>errors.WithMessage(err, msg)\<close>.  The last one is the error of the
  certificate date check, see \<open>ValidateCertificateDates\<close> below.
\<close>

datatype error =
    errors_New string
  | errors_Errorf string "int list"
  | errors_Wrap error string
  | errors_WithMessage error string
  | TemporalValidityError

record Certificate =
  NotBefore :: int
  NotAfter :: int
  SerialNumber :: int

text \<open>\<^verbatim>\<open>pem.Block\<close>\<close>

record pem_Block =
  block_Type :: string
  block_Headers :: "(string \<times> string) list"
  block_Bytes :: bytes

text \<open>The protobuf messages \<^verbatim>\<open>mb.SerializedIdentity\<close>, \<^verbatim>\<open>mb.MSPConfig\<close>,
  \<^verbatim>\<open>mb.FabricOUIdentifier\<close> and \<^verbatim>\<open>mb.FabricMSPConfig\<close>.\<close>

record SerializedIdentity =
  Mspid :: string
  IdBytes :: bytes

record MSPConfig =
  config_Type :: "32 word"
  config_Config :: bytes

record FabricOUIdentifier =
  ou_Certificate :: bytes
  OrganizationalUnitIdentifier :: string

record FabricMSPConfig =
  Name :: string
  RootCerts :: "bytes list"
  IntermediateCerts :: "bytes list"
  OrganizationalUnitIdentifiers :: "FabricOUIdentifier list"
  TlsRootCerts :: "bytes list"
  TlsIntermediateCerts :: "bytes list"

text \<open>
  What the code does to the outside world, in the order in which it does it: a line
  written through the package-level \<^verbatim>\<open>logger\<close> (\<open>Logf\<close> for the formatting
  variants \<^verbatim>\<open>Debugf\<close>, \<^verbatim>\<open>Warnf\<close>, \<^verbatim>\<open>Errorf\<close>; \<open>Log\<close> for \<^verbatim>\<open>Warn\<close>,
  which takes its arguments unformatted), a certificate handed to
  \<^verbatim>\<open>EndpointConfig.TLSCACertPool\<close>, and the calls made on the MSP manager and on
  a deserialized identity.  Every function of the model returns the list of events it
  caused next to its result.
\<close>

datatype level = DEBUG | WARN | ERROR

datatype arg = AStr string | AInt int | AErr error

datatype event =
    Logf level string "arg list"
  | Log level "arg list"
  | CallTLSCACertPool Certificate
  | CallDeserializeIdentity bytes
  | CallIdentityValidate
  | CallIdentityVerify bytes bytes

text \<open>
  The capabilities the file imports and does not define: the protobuf, PEM and X.509
  decoders, the MSP implementation (\<^verbatim>\<open>msp.NewBccspMsp\<close> applied to
  \<^verbatim>\<open>msp.MSPv1_0\<close> and the context's crypto suite, and the methods of
  \<^verbatim>\<open>msp.MSP\<close>), the MSP manager (\<^verbatim>\<open>msp.NewMSPManager\<close> and the methods of
  \<^verbatim>\<open>msp.MSPManager\<close>), the methods of \<^verbatim>\<open>msp.Identity\<close>, and the constant
  \<^verbatim>\<open>msp.FABRIC\<close>.  They are parameters of the model.  A method that mutates its
  receiver and returns an error (\<^verbatim>\<open>Setup\<close>) returns the updated receiver or the error.
\<close>

record ('msp, 'mgr, 'ident) deps =
  FABRIC :: int
  unmarshalSerializedIdentity :: "bytes \<Rightarrow> error + SerializedIdentity"
  unmarshalFabricMSPConfig :: "bytes \<Rightarrow> error + FabricMSPConfig"
  pemDecode :: "bytes \<Rightarrow> pem_Block option \<times> bytes"
  ParseCertificate :: "bytes \<Rightarrow> error + Certificate"
  NewBccspMsp :: "error + 'msp"
  mspSetup :: "'msp \<Rightarrow> MSPConfig \<Rightarrow> error + 'msp"
  GetIdentifier :: "'msp \<Rightarrow> error + string"
  GetTLSRootCerts :: "'msp \<Rightarrow> bytes list"
  GetTLSIntermediateCerts :: "'msp \<Rightarrow> bytes list"
  NewMSPManager :: "'mgr"
  managerSetup :: "'mgr \<Rightarrow> 'msp list \<Rightarrow> error + 'mgr"
  DeserializeIdentity :: "'mgr \<Rightarrow> bytes \<Rightarrow> error + 'ident"
  identityValidate :: "'ident \<Rightarrow> error option"
  identityVerify :: "'ident \<Rightarrow> bytes \<Rightarrow> bytes \<Rightarrow> error option"

record 'mgr identityImpl =
  mspManager :: "'mgr"

section \<open>The certificate date check\<close>

text \<open>
  Modelled from the spec: \<^verbatim>\<open>verifier.ValidateCertificateDates\<close>, of package
  \<^verbatim>\<open>pkg/client/common/verifier\<close>, which is not among the sources.  Section 4.1:
  the check fails when \<open>now < notBefore\<close> or \<open>now > notAfter\<close>, with a
  \<open>TemporalValidityError\<close>.  The current time \<open>now\<close> is an argument.
\<close>

definition ValidateCertificateDates :: "int \<Rightarrow> Certificate \<Rightarrow> error option" where
  "ValidateCertificateDates now cert =
     (if now < NotBefore cert \<or> NotAfter cert < now then Some TemporalValidityError
      else None)"

section \<open>Validate and Verify\<close>

definition areCertDatesValid ::
  "('msp, 'mgr, 'ident) deps \<Rightarrow> int \<Rightarrow> bytes \<Rightarrow> error option \<times> event list" where
  "areCertDatesValid D now serializedID =
     (case unmarshalSerializedIdentity D serializedID of
        Inl err \<Rightarrow> (Some (errors_Wrap err ''could not deserialize a SerializedIdentity''), [])
      | Inr sID \<Rightarrow>
          (case fst (pemDecode D (IdBytes sID)) of
             None \<Rightarrow> (Some (errors_New ''could not decode the PEM structure''), [])
           | Some bl \<Rightarrow>
               (case ParseCertificate D (block_Bytes bl) of
                  Inl err \<Rightarrow> (Some err, [])
                | Inr cert \<Rightarrow>
                    (case ValidateCertificateDates now cert of
                       Some err \<Rightarrow>
                         (Some err,
                          [Logf WARN (''Certificate error '' @ [CHR 0x27] @ ''%v'' @ [CHR 0x27]
                                      @ '' for cert '' @ [CHR 0x27] @ ''%v'' @ [CHR 0x27])
                             [AErr err, AInt (SerialNumber cert)]])
                     | None \<Rightarrow> (None, [])))))"

definition Validate ::
  "('msp, 'mgr, 'ident) deps \<Rightarrow> int \<Rightarrow> 'mgr identityImpl \<Rightarrow> bytes \<Rightarrow> error option \<times> event list" where
  "Validate D now i serializedID =
     (case areCertDatesValid D now serializedID of
        (Some err, evs) \<Rightarrow> (Some err, evs @ [Logf ERROR ''Cert error %v'' [AErr err]])
      | (None, evs) \<Rightarrow>
          (case DeserializeIdentity D (mspManager i) serializedID of
             Inl err \<Rightarrow> (Some err, evs @ [CallDeserializeIdentity serializedID])
           | Inr ident \<Rightarrow>
               (identityValidate D ident,
                evs @ [CallDeserializeIdentity serializedID, CallIdentityValidate])))"

definition Verify ::
  "('msp, 'mgr, 'ident) deps \<Rightarrow> 'mgr identityImpl \<Rightarrow> bytes \<Rightarrow> bytes \<Rightarrow> bytes
     \<Rightarrow> error option \<times> event list" where
  "Verify D i serializedID msg sig =
     (case DeserializeIdentity D (mspManager i) serializedID of
        Inl err \<Rightarrow> (Some err, [CallDeserializeIdentity serializedID])
      | Inr ident \<Rightarrow>
          (identityVerify D ident msg sig,
           [CallDeserializeIdentity serializedID, CallIdentityVerify msg sig]))"

section \<open>Loading the MSPs\<close>

definition getFabricConfig ::
  "('msp, 'mgr, 'ident) deps \<Rightarrow> MSPConfig \<Rightarrow> error + FabricMSPConfig" where
  "getFabricConfig D config =
     (case unmarshalFabricMSPConfig D (config_Config config) of
        Inl err \<Rightarrow> Inl (errors_Wrap err ''unmarshal FabricMSPConfig from config failed'')
      | Inr fabricConfig \<Rightarrow>
          if Name fabricConfig = [] then Inl (errors_New ''MSP Configuration missing name'')
          else if length (RootCerts fabricConfig) = 0 then
            Inl (errors_New
              ''MSP Configuration missing root certificates required for validating signing certificates'')
          else Inr fabricConfig)"

text \<open>The body of the loop of \<^verbatim>\<open>loadMSPs\<close>, for one configuration: the MSP built
  from it, or the error with which \<^verbatim>\<open>loadMSPs\<close> returns.\<close>

definition loadMSP ::
  "('msp, 'mgr, 'ident) deps \<Rightarrow> MSPConfig \<Rightarrow> (error + 'msp) \<times> event list" where
  "loadMSP D config =
     (let mspType = sint (config_Type config) in
      if mspType \<noteq> FABRIC D then
        (Inl (errors_Errorf ''MSP type not supported: %v'' [mspType]), [])
      else if length (config_Config config) = 0 then
        (Inl (errors_Errorf
           (''MSP configuration missing the payload in the '' @ [CHR 0x27] @ ''Config''
            @ [CHR 0x27] @ '' property'') []), [])
      else
        (case getFabricConfig D config of
           Inl err \<Rightarrow> (Inl err, [])
         | Inr fabricConfig \<Rightarrow>
             (let orgUnits = OrganizationalUnitIdentifiers fabricConfig;
                  evs = map (\<lambda>orgUnit. Logf DEBUG ''loadMSPs - found org of :: %s''
                               [AStr (OrganizationalUnitIdentifier orgUnit)]) orgUnits
              in case NewBccspMsp D of
                   Inl err \<Rightarrow> (Inl (errors_Wrap err ''instantiate MSP failed''), evs)
                 | Inr newMSP \<Rightarrow>
                     (case mspSetup D newMSP config of
                        Inl err \<Rightarrow> (Inl (errors_Wrap err ''configure MSP failed''), evs)
                      | Inr newMSP' \<Rightarrow>
                          (case GetIdentifier D newMSP' of
                             Inl err1 \<Rightarrow> (Inl (errors_Wrap err1 ''failed to get identifier''), evs)
                           | Inr mspID \<Rightarrow>
                               (Inr newMSP',
                                evs @ [Logf DEBUG ''loadMSPs - adding msp=%s'' [AStr mspID]]))))))"

text \<open>The loop of \<^verbatim>\<open>loadMSPs\<close>: \<open>msps\<close> is the slice built so far.\<close>

fun loadMSPs_loop ::
  "('msp, 'mgr, 'ident) deps \<Rightarrow> MSPConfig list \<Rightarrow> 'msp list \<Rightarrow> (error + 'msp list) \<times> event list" where
  "loadMSPs_loop D [] msps = (Inr msps, [])"
| "loadMSPs_loop D (config # rest) msps =
     (case loadMSP D config of
        (Inl err, evs) \<Rightarrow> (Inl err, evs)
      | (Inr newMSP, evs) \<Rightarrow>
          (case loadMSPs_loop D rest (msps @ [newMSP]) of
             (r, evs') \<Rightarrow> (r, evs @ evs')))"

definition loadMSPs ::
  "('msp, 'mgr, 'ident) deps \<Rightarrow> MSPConfig list \<Rightarrow> (error + 'msp list) \<times> event list" where
  "loadMSPs D mspConfigs =
     (let start = Logf DEBUG ''loadMSPs - start number of msps=%d'' [AInt (int (length mspConfigs))]
      in case loadMSPs_loop D mspConfigs [] of
           (Inl err, evs) \<Rightarrow> (Inl err, start # evs)
         | (Inr msps, evs) \<Rightarrow>
             (Inr msps,
              start # evs @ [Logf DEBUG ''loadMSPs - loaded %d MSPs'' [AInt (int (length msps))]]))"

section \<open>Feeding the TLS certificate pool\<close>

text \<open>The body of the loop of \<^verbatim>\<open>addCertsToConfig\<close> after a block was decoded:
  the two \<^verbatim>\<open>continue\<close> statements cause nothing.\<close>

definition addCertBlock ::
  "('msp, 'mgr, 'ident) deps \<Rightarrow> int \<Rightarrow> pem_Block \<Rightarrow> event list" where
  "addCertBlock D now block =
     (if block_Type block \<noteq> ''CERTIFICATE'' \<or> length (block_Headers block) \<noteq> 0 then []
      else
        (case ParseCertificate D (block_Bytes block) of
           Inl err \<Rightarrow> []
         | Inr cert \<Rightarrow>
             (case ValidateCertificateDates now cert of
                Some err \<Rightarrow> [Log WARN [AStr ''%v'', AErr err]]
              | None \<Rightarrow> [])
             @ [CallTLSCACertPool cert]))"

text \<open>The loop runs for as long as \<^verbatim>\<open>pem.Decode\<close> finds a block in what is left;
  nothing in the file bounds it, so the model returns \<open>None\<close> when it does not end.\<close>

partial_function (option) addCertsToConfig ::
  "('msp, 'mgr, 'ident) deps \<Rightarrow> int \<Rightarrow> bytes \<Rightarrow> event list option" where
  "addCertsToConfig D now pemCerts =
     (if length pemCerts > 0 then
        (case pemDecode D pemCerts of
           (None, rest) \<Rightarrow> Some []
         | (Some block, rest) \<Rightarrow>
             Option.bind (addCertsToConfig D now rest)
               (\<lambda>evs. Some (addCertBlock D now block @ evs)))
      else Some [])"

text \<open>The two inner loops of \<^verbatim>\<open>createMSPManager\<close>, over the PEM blobs of one MSP,
  and its outer loop, over the MSPs.\<close>

fun addCertsList ::
  "('msp, 'mgr, 'ident) deps \<Rightarrow> int \<Rightarrow> bytes list \<Rightarrow> event list option" where
  "addCertsList D now [] = Some []"
| "addCertsList D now (cert # certs) =
     Option.bind (addCertsToConfig D now cert) (\<lambda>evs.
     Option.bind (addCertsList D now certs) (\<lambda>evs'.
     Some (evs @ evs')))"

fun addMSPCerts ::
  "('msp, 'mgr, 'ident) deps \<Rightarrow> int \<Rightarrow> 'msp list \<Rightarrow> event list option" where
  "addMSPCerts D now [] = Some []"
| "addMSPCerts D now (msp # msps) =
     Option.bind (addCertsList D now (GetTLSRootCerts D msp)) (\<lambda>evs.
     Option.bind (addCertsList D now (GetTLSIntermediateCerts D msp)) (\<lambda>evs'.
     Option.bind (addMSPCerts D now msps) (\<lambda>evs''.
     Some (evs @ evs' @ evs''))))"

section \<open>Assembling the manager\<close>

text \<open>\<open>MSPs\<close> is the list \<^verbatim>\<open>cfg.MSPs()\<close> of the channel configuration.\<close>

definition createMSPManager ::
  "('msp, 'mgr, 'ident) deps \<Rightarrow> int \<Rightarrow> MSPConfig list \<Rightarrow> ((error + 'mgr) \<times> event list) option" where
  "createMSPManager D now MSPs =
     (let mspManager = NewMSPManager D in
      if length MSPs > 0 then
        (case loadMSPs D MSPs of
           (Inl err, evs) \<Rightarrow>
             Some (Inl (errors_WithMessage err ''load MSPs from config failed''), evs)
         | (Inr msps, evs) \<Rightarrow>
             (case managerSetup D mspManager msps of
                Inl err \<Rightarrow> Some (Inl (errors_WithMessage err ''MSPManager Setup failed''), evs)
              | Inr mspManager' \<Rightarrow>
                  Option.bind (addMSPCerts D now msps) (\<lambda>evs'.
                  Some (Inr mspManager', evs @ evs'))))
      else Some (Inr mspManager, []))"

definition New ::
  "('msp, 'mgr, 'ident) deps \<Rightarrow> int \<Rightarrow> MSPConfig list
     \<Rightarrow> ((error + 'mgr identityImpl) \<times> event list) option" where
  "New D now MSPs =
     Option.bind (createMSPManager D now MSPs) (\<lambda>(r, evs).
       case r of
         Inl err \<Rightarrow> Some (Inl err, evs)
       | Inr m \<Rightarrow> Some (Inr \<lparr>mspManager = m\<rparr>, evs))"

section \<open>The registry of the manager\<close>

text \<open>
  Modelled from the spec: the MSP manager (\<^verbatim>\<open>msp.NewMSPManager\<close> and
  \<^verbatim>\<open>MSPManager.Setup\<close>), whose implementation is not among the sources.  Section 3:
  the manager is a mapping from the identifier of a trust domain to the trust domain,
  and an empty configuration list gives an empty manager.  Section 4.3: all built
  domains are keyed by their identifier into the registry; section 4.2, step 7: a
  failure to retrieve the identifier is an error.
\<close>

type_synonym 'msp registry = "string \<rightharpoonup> 'msp"

fun registry_Setup ::
  "('msp \<Rightarrow> error + string) \<Rightarrow> 'msp registry \<Rightarrow> 'msp list \<Rightarrow> error + 'msp registry" where
  "registry_Setup getId reg [] = Inr reg"
| "registry_Setup getId reg (msp # msps) =
     (case getId msp of
        Inl err \<Rightarrow> Inl err
      | Inr mspID \<Rightarrow> registry_Setup getId (reg(mspID \<mapsto> msp)) msps)"

definition with_registry ::
  "('msp, 'msp registry, 'ident) deps \<Rightarrow> ('msp, 'msp registry, 'ident) deps" where
  "with_registry D =
     D\<lparr>NewMSPManager := Map.empty, managerSetup := registry_Setup (GetIdentifier D)\<rparr>"

section \<open>Observations\<close>

text \<open>The certificates handed to the TLS certificate pool, in order.\<close>

definition forwarded :: "event list \<Rightarrow> Certificate list" where
  "forwarded evs = concat (map (\<lambda>ev. case ev of CallTLSCACertPool cert \<Rightarrow> [cert] | _ \<Rightarrow> []) evs)"

text \<open>The arguments of the \<^verbatim>\<open>logger.Warn\<close> calls, in order.\<close>

definition warned :: "event list \<Rightarrow> arg list list" where
  "warned evs = concat (map (\<lambda>ev. case ev of Log WARN args \<Rightarrow> [args] | _ \<Rightarrow> []) evs)"

definition is_log :: "event \<Rightarrow> bool" where
  "is_log ev = (case ev of Logf l f args \<Rightarrow> True | Log l args \<Rightarrow> True | _ \<Rightarrow> False)"

text \<open>\<^verbatim>\<open>pem.Decode\<close> consumes input whenever it returns a block: what is left is
  shorter than what it was given.\<close>

definition pem_progress :: "('msp, 'mgr, 'ident) deps \<Rightarrow> bool" where
  "pem_progress D \<longleftrightarrow>
     (\<forall>pemCerts block rest. pemDecode D pemCerts = (Some block, rest) \<longrightarrow> length rest < length pemCerts)"

text \<open>The blocks that at most \<open>n\<close> rounds of the loop of \<^verbatim>\<open>addCertsToConfig\<close>
  decode from a PEM blob.\<close>

fun pemBlocks :: "('msp, 'mgr, 'ident) deps \<Rightarrow> nat \<Rightarrow> bytes \<Rightarrow> pem_Block list" where
  "pemBlocks D 0 pemCerts = []"
| "pemBlocks D (Suc n) pemCerts =
     (if length pemCerts > 0 then
        (case pemDecode D pemCerts of
           (None, rest) \<Rightarrow> []
         | (Some block, rest) \<Rightarrow> block # pemBlocks D n rest)
      else [])"

text \<open>All blocks of a blob: a blob of \<open>n\<close> bytes holds fewer than \<open>n\<close> blocks when
  the decoder makes progress.\<close>

definition blocksOf :: "('msp, 'mgr, 'ident) deps \<Rightarrow> bytes \<Rightarrow> pem_Block list" where
  "blocksOf D pemCerts = pemBlocks D (length pemCerts) pemCerts"

text \<open>The PEM blobs that \<^verbatim>\<open>createMSPManager\<close> reads from the built MSPs, in order.\<close>

definition tlsBlobs :: "('msp, 'mgr, 'ident) deps \<Rightarrow> 'msp list \<Rightarrow> bytes list" where
  "tlsBlobs D msps = concat (map (\<lambda>msp. GetTLSRootCerts D msp @ GetTLSIntermediateCerts D msp) msps)"

section \<open>A test double for the imported capabilities\<close>

text \<open>
  Stand-ins for the imported libraries, small enough to run the model on concrete
  inputs.  In the double's wire formats a serialized identity is one byte naming the
  MSP (1 for \<open>Org1MSP\<close>, anything else for \<open>Org2MSP\<close>) followed by the PEM bytes; a
  PEM blob holds one block per byte, where a zero byte is text in which no block is
  found, a byte from 128 on is a block of another type, 127 is a certificate block
  with a header; the certificate in a block with byte \<open>b < 100\<close> is valid from time 0
  to time \<open>10 * b\<close> and has serial number \<open>b\<close>, and other bytes do not parse; an MSP
  configuration payload is a byte for the name (0 for the empty name), a byte for the
  number of root certificates, and the PEM blob of the TLS root certificates.  An MSP
  of the double is the configuration it was set up with, its manager is the registry
  above, and an identity of the double is its certificate; every identity of a known
  MSP passes validation, and a signature is good when it equals the message.
\<close>

definition test_unmarshalSerializedIdentity :: "bytes \<Rightarrow> error + SerializedIdentity" where
  "test_unmarshalSerializedIdentity bs =
     (case bs of
        [] \<Rightarrow> Inl (errors_New ''proto: unexpected EOF'')
      | t # rest \<Rightarrow> Inr \<lparr>Mspid = (if t = 1 then ''Org1MSP'' else ''Org2MSP''), IdBytes = rest\<rparr>)"

definition test_pemDecode :: "bytes \<Rightarrow> pem_Block option \<times> bytes" where
  "test_pemDecode bs =
     (case bs of
        [] \<Rightarrow> (None, [])
      | b # rest \<Rightarrow>
          if b = 0 then (None, b # rest)
          else (Some \<lparr>block_Type = (if b < 128 then ''CERTIFICATE'' else ''X509 CRL''),
                      block_Headers = (if b = 127 then [(''Proc-Type'', ''4,ENCRYPTED'')] else []),
                      block_Bytes = [b]\<rparr>, rest))"

definition test_ParseCertificate :: "bytes \<Rightarrow> error + Certificate" where
  "test_ParseCertificate bs =
     (case bs of
        [b] \<Rightarrow>
          if b < 100 then Inr \<lparr>NotBefore = 0, NotAfter = 10 * uint b, SerialNumber = uint b\<rparr>
          else Inl (errors_New ''x509: malformed certificate'')
      | _ \<Rightarrow> Inl (errors_New ''x509: malformed certificate''))"

definition test_unmarshalFabricMSPConfig :: "bytes \<Rightarrow> error + FabricMSPConfig" where
  "test_unmarshalFabricMSPConfig bs =
     (case bs of
        n # r # tls \<Rightarrow>
          Inr \<lparr>Name = (if n = 0 then [] else if n = 1 then ''Org1MSP'' else ''Org2MSP''),
               RootCerts = replicate (unat r) [90],
               IntermediateCerts = [],
               OrganizationalUnitIdentifiers = [],
               TlsRootCerts = (if tls = [] then [] else [tls]),
               TlsIntermediateCerts = []\<rparr>
      | _ \<Rightarrow> Inl (errors_New ''proto: unexpected EOF''))"

definition test_DeserializeIdentity ::
  "FabricMSPConfig registry \<Rightarrow> bytes \<Rightarrow> error + Certificate" where
  "test_DeserializeIdentity reg bs =
     (case test_unmarshalSerializedIdentity bs of
        Inl err \<Rightarrow> Inl err
      | Inr sID \<Rightarrow>
          (case reg (Mspid sID) of
             None \<Rightarrow> Inl (errors_New ''MSP is unknown'')
           | Some msp \<Rightarrow>
               (case fst (test_pemDecode (IdBytes sID)) of
                  None \<Rightarrow> Inl (errors_New ''could not decode the PEM structure'')
                | Some bl \<Rightarrow> test_ParseCertificate (block_Bytes bl))))"

definition test_deps :: "(FabricMSPConfig, FabricMSPConfig registry, Certificate) deps" where
  "test_deps =
     \<lparr>FABRIC = 0,
      unmarshalSerializedIdentity = test_unmarshalSerializedIdentity,
      unmarshalFabricMSPConfig = test_unmarshalFabricMSPConfig,
      pemDecode = test_pemDecode,
      ParseCertificate = test_ParseCertificate,
      NewBccspMsp = Inr \<lparr>Name = [], RootCerts = [], IntermediateCerts = [],
                         OrganizationalUnitIdentifiers = [], TlsRootCerts = [],
                         TlsIntermediateCerts = []\<rparr>,
      mspSetup = (\<lambda>msp config. test_unmarshalFabricMSPConfig (config_Config config)),
      GetIdentifier = (\<lambda>msp. Inr (Name msp)),
      GetTLSRootCerts = TlsRootCerts,
      GetTLSIntermediateCerts = TlsIntermediateCerts,
      NewMSPManager = Map.empty,
      managerSetup = registry_Setup (\<lambda>msp. Inr (Name msp)),
      DeserializeIdentity = test_DeserializeIdentity,
      identityValidate = (\<lambda>ident. None),
      identityVerify = (\<lambda>ident msg sig.
         if sig = msg then None else Some (errors_New ''The signature is invalid''))\<rparr>"

text \<open>The double with a manager whose \<^verbatim>\<open>Setup\<close> fails.\<close>

definition test_deps_no_setup :: "(FabricMSPConfig, FabricMSPConfig registry, Certificate) deps" where
  "test_deps_no_setup =
     test_deps\<lparr>managerSetup := (\<lambda>mgr msps. Inl (errors_New ''could not extract msp identifier''))\<rparr>"

text \<open>
  Configurations in the double's wire format: \<open>Org1MSP\<close> with one root certificate
  and a TLS blob holding a certificate that expired at time 100, one valid until time
  900 and a block of another type; \<open>Org2MSP\<close>; a second configuration named
  \<open>Org1MSP\<close>; one of another provider type; one without payload; one whose payload
  has neither a name nor root certificates; one with a name and no root certificates.
\<close>

definition test_org1 :: MSPConfig where
  "test_org1 = \<lparr>config_Type = 0, config_Config = [1, 1, 10, 90, 200]\<rparr>"

definition test_org2 :: MSPConfig where
  "test_org2 = \<lparr>config_Type = 0, config_Config = [2, 1, 20]\<rparr>"

definition test_org1_again :: MSPConfig where
  "test_org1_again = \<lparr>config_Type = 0, config_Config = [1, 2]\<rparr>"

definition test_other_type :: MSPConfig where
  "test_other_type = \<lparr>config_Type = 1, config_Config = [2, 1]\<rparr>"

definition test_no_payload :: MSPConfig where
  "test_no_payload = \<lparr>config_Type = 0, config_Config = []\<rparr>"

definition test_no_name :: MSPConfig where
  "test_no_name = \<lparr>config_Type = 0, config_Config = [0, 0]\<rparr>"

definition test_no_roots :: MSPConfig where
  "test_no_roots = \<lparr>config_Type = 0, config_Config = [1, 0]\<rparr>"

text \<open>The MSPs that the double builds from \<open>test_org1\<close> and \<open>test_org1_again\<close>.\<close>

definition test_msp1 :: FabricMSPConfig where
  "test_msp1 = \<lparr>Name = ''Org1MSP'', RootCerts = [[90]], IntermediateCerts = [],
                 OrganizationalUnitIdentifiers = [], TlsRootCerts = [[10, 90, 200]],
                 TlsIntermediateCerts = []\<rparr>"

definition test_msp1_again :: FabricMSPConfig where
  "test_msp1_again = \<lparr>Name = ''Org1MSP'', RootCerts = [[90], [90]], IntermediateCerts = [],
                       OrganizationalUnitIdentifiers = [], TlsRootCerts = [],
                       TlsIntermediateCerts = []\<rparr>"

section \<open>Properties of loading\<close>

lemma loadMSPs_loop_fst:
  "fst (loadMSPs_loop D (config # rest) msps) =
     (case fst (loadMSP D config) of
        Inl err \<Rightarrow> Inl err
      | Inr newMSP \<Rightarrow> fst (loadMSPs_loop D rest (msps @ [newMSP])))"
  by (cases "loadMSP D config") (auto split: sum.splits prod.splits)

lemma loadMSPs_loop_snd:
  "snd (loadMSPs_loop D (config # rest) msps) =
     (case fst (loadMSP D config) of
        Inl err \<Rightarrow> snd (loadMSP D config)
      | Inr newMSP \<Rightarrow> snd (loadMSP D config) @ snd (loadMSPs_loop D rest (msps @ [newMSP])))"
  by (cases "loadMSP D config") (auto split: sum.splits prod.splits)

text \<open>Loading only writes log lines.\<close>

lemma loadMSP_events_log: "list_all is_log (snd (loadMSP D config))"
  by (auto simp: loadMSP_def Let_def is_log_def list_all_iff split: if_splits sum.splits)

lemma loadMSPs_loop_events_log: "list_all is_log (snd (loadMSPs_loop D configs msps))"
proof (induction configs arbitrary: msps)
  case Nil
  then show ?case by simp
next
  case (Cons config rest)
  then show ?case
    by (simp add: loadMSPs_loop_snd loadMSP_events_log split: sum.splits del: loadMSPs_loop.simps)
qed

lemma loadMSPs_events_log: "list_all is_log (snd (loadMSPs D configs))"
  using loadMSPs_loop_events_log[of D configs "[]"]
  by (auto simp: loadMSPs_def Let_def is_log_def split: prod.splits sum.splits)

lemma forwarded_log: "list_all is_log evs \<Longrightarrow> forwarded evs = []"
  by (induction evs) (auto simp: forwarded_def is_log_def split: event.splits)

lemma forwarded_append: "forwarded (xs @ ys) = forwarded xs @ forwarded ys"
  by (simp add: forwarded_def)

lemma warned_append: "warned (xs @ ys) = warned xs @ warned ys"
  by (simp add: warned_def)

text \<open>The loop stops at the first configuration that fails to load.\<close>

lemma loadMSPs_loop_fail:
  "\<forall>p\<in>set pre. \<exists>m. fst (loadMSP D p) = Inr m \<Longrightarrow> fst (loadMSP D c) = Inl e
   \<Longrightarrow> fst (loadMSPs_loop D (pre @ c # post) msps) = Inl e"
proof (induction pre arbitrary: msps)
  case Nil
  then show ?case by (simp add: loadMSPs_loop_fst del: loadMSPs_loop.simps)
next
  case (Cons p pre)
  from Cons.prems obtain m where m: "fst (loadMSP D p) = Inr m" by auto
  have "fst (loadMSPs_loop D (pre @ c # post) (msps @ [m])) = Inl e"
    using Cons by simp
  with m show ?case
    by (simp add: loadMSPs_loop_fst del: loadMSPs_loop.simps)
qed

text \<open>When the loop succeeds it has appended one MSP for each configuration.\<close>

lemma loadMSPs_loop_ok:
  "fst (loadMSPs_loop D configs msps) = Inr r \<Longrightarrow>
   \<exists>new. r = msps @ new \<and>
     list_all2 (\<lambda>config msp. fst (loadMSP D config) = Inr msp) configs new"
proof (induction configs arbitrary: msps r)
  case Nil
  then show ?case by simp
next
  case (Cons config rest)
  from Cons.prems obtain newMSP where
    n: "fst (loadMSP D config) = Inr newMSP"
    and r: "fst (loadMSPs_loop D rest (msps @ [newMSP])) = Inr r"
    by (auto simp add: loadMSPs_loop_fst simp del: loadMSPs_loop.simps split: sum.splits)
  from Cons.IH[OF r] obtain new where
    "r = (msps @ [newMSP]) @ new"
    "list_all2 (\<lambda>config msp. fst (loadMSP D config) = Inr msp) rest new" by blast
  with n show ?case
    by (intro exI[of _ "newMSP # new"]) simp
qed

lemma fst_loadMSPs: "fst (loadMSPs D configs) = fst (loadMSPs_loop D configs [])"
  by (simp add: loadMSPs_def Let_def split: prod.splits sum.splits)

lemma loadMSP_identifier:
  "fst (loadMSP D config) = Inr msp \<Longrightarrow> \<exists>mspID. GetIdentifier D msp = Inr mspID"
  by (auto simp: loadMSP_def Let_def split: if_splits sum.splits)

section \<open>Properties of the TLS certificate loops\<close>

lemma addCertsToConfig_blocks:
  "pem_progress D \<Longrightarrow> length pemCerts \<le> n \<Longrightarrow>
   addCertsToConfig D now pemCerts = Some (concat (map (addCertBlock D now) (pemBlocks D n pemCerts)))"
proof (induction n arbitrary: pemCerts)
  case 0
  then show ?case by (subst addCertsToConfig.simps) simp
next
  case (Suc n)
  show ?case
  proof (cases "pemDecode D pemCerts")
    case (Pair b rest)
    show ?thesis
    proof (cases b)
      case None
      with Pair show ?thesis by (subst addCertsToConfig.simps) simp
    next
      case (Some block)
      with Pair Suc.prems have "length rest < length pemCerts"
        by (auto simp: pem_progress_def)
      with Suc.prems have "length rest \<le> n" by simp
      from Suc.IH[OF Suc.prems(1) this] Pair Some show ?thesis
        by (subst addCertsToConfig.simps) simp
    qed
  qed
qed

lemma addCertsToConfig_blocksOf:
  "pem_progress D \<Longrightarrow>
   addCertsToConfig D now pemCerts = Some (concat (map (addCertBlock D now) (blocksOf D pemCerts)))"
  by (simp add: blocksOf_def addCertsToConfig_blocks)

lemma addCertsList_blocks:
  "pem_progress D \<Longrightarrow>
   addCertsList D now certs =
     Some (concat (map (addCertBlock D now) (concat (map (blocksOf D) certs))))"
  by (induction certs) (simp_all add: addCertsToConfig_blocksOf)

lemma addMSPCerts_blocks:
  "pem_progress D \<Longrightarrow>
   addMSPCerts D now msps =
     Some (concat (map (addCertBlock D now) (concat (map (blocksOf D) (tlsBlobs D msps)))))"
  by (induction msps) (simp_all add: addCertsList_blocks tlsBlobs_def)

lemma test_deps_progress: "pem_progress test_deps"
  by (auto simp: pem_progress_def test_deps_def test_pemDecode_def split: list.splits if_splits)

section \<open>Assembly fails as a whole\<close>

lemma first_failure:
  assumes "config \<in> set MSPs" and "fst (loadMSP D config) = Inl err"
  shows "\<exists>pre c post e. MSPs = pre @ c # post \<and>
           (\<forall>p\<in>set pre. \<exists>msp. fst (loadMSP D p) = Inr msp) \<and> fst (loadMSP D c) = Inl e"
proof -
  from assms have "\<exists>x\<in>set MSPs. \<exists>e. fst (loadMSP D x) = Inl e" by blast
  from split_list_first_prop[OF this] obtain pre c post where
    d: "MSPs = pre @ c # post" and c: "\<exists>e. fst (loadMSP D c) = Inl e"
    and pre: "\<forall>p\<in>set pre. \<not> (\<exists>e. fst (loadMSP D p) = Inl e)" by blast
  have "\<forall>p\<in>set pre. \<exists>msp. fst (loadMSP D p) = Inr msp"
  proof
    fix p assume "p \<in> set pre"
    with pre have "\<not> (\<exists>e. fst (loadMSP D p) = Inl e)" by blast
    then show "\<exists>msp. fst (loadMSP D p) = Inr msp" by (cases "fst (loadMSP D p)") auto
  qed
  with d c show ?thesis by blast
qed

lemma createMSPManager_load_failed:
  "fst (loadMSPs D MSPs) = Inl e \<Longrightarrow>
   createMSPManager D now MSPs =
     Some (Inl (errors_WithMessage e ''load MSPs from config failed''), snd (loadMSPs D MSPs))"
proof -
  assume a: "fst (loadMSPs D MSPs) = Inl e"
  have "MSPs \<noteq> []"
  proof
    assume "MSPs = []"
    with a show False by (simp add: fst_loadMSPs)
  qed
  with a show ?thesis
    by (cases "loadMSPs D MSPs") (simp add: createMSPManager_def)
qed

lemma New_failed:
  "createMSPManager D now MSPs = Some (Inl e, evs) \<Longrightarrow> New D now MSPs = Some (Inl e, evs)"
  by (simp add: New_def)

text \<open>
  Claim C1.  Assembly is atomic.  For every list of MSP configurations, if loading any
  configuration of the list fails, then there is a first configuration that fails to
  load, \<^verbatim>\<open>createMSPManager\<close> returns the error of that configuration (under the
  message \<open>load MSPs from config failed\<close>) and no manager, and \<^verbatim>\<open>New\<close> returns the
  same error and no membership object.  The failures of \<open>loadMSP\<close> are the ones of the
  claim: an unsupported provider type, a missing payload, a payload that does not
  decode, a missing name, missing root certificates, and the errors of the MSP
  implementation.
\<close>

theorem createMSPManager_atomic:
  assumes "config \<in> set MSPs" and "fst (loadMSP D config) = Inl err"
  shows "\<exists>pre c post e evs.
           MSPs = pre @ c # post \<and>
           (\<forall>p\<in>set pre. \<exists>msp. fst (loadMSP D p) = Inr msp) \<and>
           fst (loadMSP D c) = Inl e \<and>
           createMSPManager D now MSPs =
             Some (Inl (errors_WithMessage e ''load MSPs from config failed''), evs) \<and>
           New D now MSPs =
             Some (Inl (errors_WithMessage e ''load MSPs from config failed''), evs)"
proof -
  from first_failure[OF assms] obtain pre c post e where
    d: "MSPs = pre @ c # post"
    and pre: "\<forall>p\<in>set pre. \<exists>msp. fst (loadMSP D p) = Inr msp"
    and c: "fst (loadMSP D c) = Inl e" by blast
  from loadMSPs_loop_fail[OF pre c] d have "fst (loadMSPs D MSPs) = Inl e"
    by (simp add: fst_loadMSPs)
  from createMSPManager_load_failed[OF this]
  have m: "createMSPManager D now MSPs =
     Some (Inl (errors_WithMessage e ''load MSPs from config failed''), snd (loadMSPs D MSPs))" .
  from New_failed[OF m] m d pre c show ?thesis by blast
qed

lemma test_loadMSP_org1:
  "loadMSP test_deps test_org1 =
     (Inr test_msp1, [Logf DEBUG ''loadMSPs - adding msp=%s'' [AStr ''Org1MSP'']])"
  by (simp add: loadMSP_def test_deps_def getFabricConfig_def test_unmarshalFabricMSPConfig_def
      test_org1_def test_msp1_def)

lemma test_loadMSP_org1_again:
  "loadMSP test_deps test_org1_again =
     (Inr test_msp1_again, [Logf DEBUG ''loadMSPs - adding msp=%s'' [AStr ''Org1MSP'']])"
  by (simp add: loadMSP_def test_deps_def getFabricConfig_def test_unmarshalFabricMSPConfig_def
      test_org1_again_def test_msp1_again_def) (simp add: numeral_2_eq_2)

lemma test_loadMSP_no_roots:
  "loadMSP test_deps test_no_roots =
     (Inl (errors_New
        ''MSP Configuration missing root certificates required for validating signing certificates''), [])"
  by (simp add: loadMSP_def test_deps_def getFabricConfig_def test_unmarshalFabricMSPConfig_def
      test_no_roots_def)

lemma test_loadMSP_no_name:
  "loadMSP test_deps test_no_name = (Inl (errors_New ''MSP Configuration missing name''), [])"
  by (simp add: loadMSP_def test_deps_def getFabricConfig_def test_unmarshalFabricMSPConfig_def
      test_no_name_def)

lemma test_loadMSP_no_payload:
  "loadMSP test_deps test_no_payload =
     (Inl (errors_Errorf
           (''MSP configuration missing the payload in the '' @ [CHR 0x27] @ ''Config''
            @ [CHR 0x27] @ '' property'') []), [])"
  by (simp add: loadMSP_def test_deps_def test_no_payload_def)

lemma test_loadMSP_other_type:
  "loadMSP test_deps test_other_type =
     (Inl (errors_Errorf ''MSP type not supported: %v'' [1]), [])"
  by (simp add: loadMSP_def test_deps_def test_other_type_def)

text \<open>
  C1 on the test double: the second of three configurations has no root certificates.
\<close>

theorem createMSPManager_atomic_witness:
  "test_no_roots \<in> set [test_org1, test_no_roots, test_org2] \<and>
   fst (loadMSP test_deps test_no_roots) =
     Inl (errors_New
       ''MSP Configuration missing root certificates required for validating signing certificates'') \<and>
   (\<exists>pre c post e evs.
      [test_org1, test_no_roots, test_org2] = pre @ c # post \<and>
      (\<forall>p\<in>set pre. \<exists>msp. fst (loadMSP test_deps p) = Inr msp) \<and>
      fst (loadMSP test_deps c) = Inl e \<and>
      createMSPManager test_deps 500 [test_org1, test_no_roots, test_org2] =
        Some (Inl (errors_WithMessage e ''load MSPs from config failed''), evs) \<and>
      New test_deps 500 [test_org1, test_no_roots, test_org2] =
        Some (Inl (errors_WithMessage e ''load MSPs from config failed''), evs)) \<and>
   createMSPManager test_deps 500 [test_org1, test_no_roots, test_org2] =
     Some (Inl (errors_WithMessage
       (errors_New
         ''MSP Configuration missing root certificates required for validating signing certificates'')
       ''load MSPs from config failed''),
       [Logf DEBUG ''loadMSPs - start number of msps=%d'' [AInt 3],
        Logf DEBUG ''loadMSPs - adding msp=%s'' [AStr ''Org1MSP'']])"
proof -
  have h1: "test_no_roots \<in> set [test_org1, test_no_roots, test_org2]" by simp
  have h2: "fst (loadMSP test_deps test_no_roots) =
     Inl (errors_New
       ''MSP Configuration missing root certificates required for validating signing certificates'')"
    by (simp add: test_loadMSP_no_roots)
  have h3: "createMSPManager test_deps 500 [test_org1, test_no_roots, test_org2] =
     Some (Inl (errors_WithMessage
       (errors_New
         ''MSP Configuration missing root certificates required for validating signing certificates'')
       ''load MSPs from config failed''),
       [Logf DEBUG ''loadMSPs - start number of msps=%d'' [AInt 3],
        Logf DEBUG ''loadMSPs - adding msp=%s'' [AStr ''Org1MSP'']])"
    by (simp add: createMSPManager_def loadMSPs_def test_loadMSP_org1 test_loadMSP_no_roots)
  from createMSPManager_atomic[OF h1 h2, of 500] h1 h2 h3 show ?thesis by blast
qed

section \<open>The date check in Validate and Verify\<close>

lemma areCertDatesValid_expired:
  assumes "unmarshalSerializedIdentity D serializedID = Inr sID"
    and "fst (pemDecode D (IdBytes sID)) = Some bl"
    and "ParseCertificate D (block_Bytes bl) = Inr cert"
    and "now < NotBefore cert \<or> NotAfter cert < now"
  shows "areCertDatesValid D now serializedID =
     (Some TemporalValidityError,
      [Logf WARN (''Certificate error '' @ [CHR 0x27] @ ''%v'' @ [CHR 0x27]
                  @ '' for cert '' @ [CHR 0x27] @ ''%v'' @ [CHR 0x27])
         [AErr TemporalValidityError, AInt (SerialNumber cert)]])"
  using assms by (simp add: areCertDatesValid_def ValidateCertificateDates_def)

lemma Validate_expired:
  assumes "unmarshalSerializedIdentity D serializedID = Inr sID"
    and "fst (pemDecode D (IdBytes sID)) = Some bl"
    and "ParseCertificate D (block_Bytes bl) = Inr cert"
    and "now < NotBefore cert \<or> NotAfter cert < now"
  shows "Validate D now i serializedID =
     (Some TemporalValidityError,
      [Logf WARN (''Certificate error '' @ [CHR 0x27] @ ''%v'' @ [CHR 0x27]
                  @ '' for cert '' @ [CHR 0x27] @ ''%v'' @ [CHR 0x27])
         [AErr TemporalValidityError, AInt (SerialNumber cert)],
       Logf ERROR ''Cert error %v'' [AErr TemporalValidityError]])"
  by (simp add: Validate_def areCertDatesValid_expired[OF assms])

text \<open>
  Claim C2.  In \<^verbatim>\<open>Validate\<close> the date check comes first.  For every serialized
  identity whose certificate is outside its validity window at the current time,
  \<^verbatim>\<open>Validate\<close> returns the error of the date check and all it does is write log
  lines: it calls neither \<^verbatim>\<open>DeserializeIdentity\<close> on the manager nor
  \<^verbatim>\<open>Validate\<close> on an identity, whatever these two would answer.
\<close>

theorem Validate_temporal_check_first:
  assumes "unmarshalSerializedIdentity D serializedID = Inr sID"
    and "fst (pemDecode D (IdBytes sID)) = Some bl"
    and "ParseCertificate D (block_Bytes bl) = Inr cert"
    and "now < NotBefore cert \<or> NotAfter cert < now"
  shows "fst (Validate D now i serializedID) = Some TemporalValidityError \<and>
         list_all is_log (snd (Validate D now i serializedID)) \<and>
         CallDeserializeIdentity serializedID \<notin> set (snd (Validate D now i serializedID)) \<and>
         CallIdentityValidate \<notin> set (snd (Validate D now i serializedID))"
  by (simp add: Validate_expired[OF assms] is_log_def)

lemma test_unmarshal_sid:
  "unmarshalSerializedIdentity test_deps [1, 10] = Inr \<lparr>Mspid = ''Org1MSP'', IdBytes = [10]\<rparr>"
  by (simp add: test_deps_def test_unmarshalSerializedIdentity_def)

lemma test_pem_sid:
  "fst (pemDecode test_deps (IdBytes \<lparr>Mspid = ''Org1MSP'', IdBytes = [10]\<rparr>)) =
     Some \<lparr>block_Type = ''CERTIFICATE'', block_Headers = [], block_Bytes = [10]\<rparr>"
  by (simp add: test_deps_def test_pemDecode_def)

lemma test_parse_sid:
  "ParseCertificate test_deps
     (block_Bytes \<lparr>block_Type = ''CERTIFICATE'', block_Headers = [], block_Bytes = [10]\<rparr>) =
     Inr \<lparr>NotBefore = 0, NotAfter = 100, SerialNumber = 10\<rparr>"
  by (simp add: test_deps_def test_ParseCertificate_def)

lemma test_expired:
  "(500::int) < NotBefore \<lparr>NotBefore = 0, NotAfter = 100, SerialNumber = 10\<rparr> \<or>
   NotAfter \<lparr>NotBefore = 0, NotAfter = 100, SerialNumber = 10\<rparr> < 500"
  by simp

lemma test_deserialize:
  "DeserializeIdentity test_deps [''Org1MSP'' \<mapsto> test_msp1] [1, 10] =
     Inr \<lparr>NotBefore = 0, NotAfter = 100, SerialNumber = 10\<rparr>"
  by (simp add: test_deps_def test_DeserializeIdentity_def test_unmarshalSerializedIdentity_def
      test_pemDecode_def test_ParseCertificate_def)

text \<open>
  C2 on the test double: an identity of a known MSP that would deserialize and
  validate, with a certificate that expired at time 100, validated at time 500.
\<close>

theorem Validate_temporal_check_first_witness:
  "unmarshalSerializedIdentity test_deps [1, 10] = Inr \<lparr>Mspid = ''Org1MSP'', IdBytes = [10]\<rparr> \<and>
   DeserializeIdentity test_deps (mspManager \<lparr>mspManager = [''Org1MSP'' \<mapsto> test_msp1]\<rparr>) [1, 10] =
     Inr \<lparr>NotBefore = 0, NotAfter = 100, SerialNumber = 10\<rparr> \<and>
   identityValidate test_deps \<lparr>NotBefore = 0, NotAfter = 100, SerialNumber = 10\<rparr> = None \<and>
   fst (Validate test_deps 500 \<lparr>mspManager = [''Org1MSP'' \<mapsto> test_msp1]\<rparr> [1, 10]) =
     Some TemporalValidityError \<and>
   list_all is_log (snd (Validate test_deps 500 \<lparr>mspManager = [''Org1MSP'' \<mapsto> test_msp1]\<rparr> [1, 10])) \<and>
   CallDeserializeIdentity [1, 10] \<notin>
     set (snd (Validate test_deps 500 \<lparr>mspManager = [''Org1MSP'' \<mapsto> test_msp1]\<rparr> [1, 10])) \<and>
   CallIdentityValidate \<notin>
     set (snd (Validate test_deps 500 \<lparr>mspManager = [''Org1MSP'' \<mapsto> test_msp1]\<rparr> [1, 10]))"
proof -
  have v: "identityValidate test_deps \<lparr>NotBefore = 0, NotAfter = 100, SerialNumber = 10\<rparr> = None"
    by (simp add: test_deps_def)
  from Validate_temporal_check_first[OF test_unmarshal_sid test_pem_sid test_parse_sid test_expired,
      of "\<lparr>mspManager = [''Org1MSP'' \<mapsto> test_msp1]\<rparr>"]
    test_unmarshal_sid v
  show ?thesis by (simp add: test_deserialize)
qed

text \<open>
  Claim C4.  \<^verbatim>\<open>Verify\<close> performs no date check.  For every serialized identity whose
  certificate is outside its validity window, so that \<^verbatim>\<open>Validate\<close> rejects it with
  the error of the date check, the outcome of \<^verbatim>\<open>Verify\<close> is the outcome of
  deserializing the identity through the manager and, when that succeeds, of the
  identity's signature check, and these two calls are all it does.  It takes nothing
  from an earlier call of \<^verbatim>\<open>Validate\<close>: its arguments are the membership object,
  the identity, the message and the signature.
\<close>

theorem Verify_no_temporal_check:
  assumes "unmarshalSerializedIdentity D serializedID = Inr sID"
    and "fst (pemDecode D (IdBytes sID)) = Some bl"
    and "ParseCertificate D (block_Bytes bl) = Inr cert"
    and "now < NotBefore cert \<or> NotAfter cert < now"
  shows "fst (Validate D now i serializedID) = Some TemporalValidityError \<and>
         Verify D i serializedID msg sig =
           (case DeserializeIdentity D (mspManager i) serializedID of
              Inl err \<Rightarrow> (Some err, [CallDeserializeIdentity serializedID])
            | Inr ident \<Rightarrow>
                (identityVerify D ident msg sig,
                 [CallDeserializeIdentity serializedID, CallIdentityVerify msg sig]))"
  by (simp add: Validate_expired[OF assms] Verify_def)

text \<open>
  C4 on the test double: the expired identity of C2 is accepted by \<^verbatim>\<open>Verify\<close> with
  a good signature and rejected with a bad one, for the signature only.
\<close>

theorem Verify_no_temporal_check_witness:
  "unmarshalSerializedIdentity test_deps [1, 10] = Inr \<lparr>Mspid = ''Org1MSP'', IdBytes = [10]\<rparr> \<and>
   ParseCertificate test_deps [10] = Inr \<lparr>NotBefore = 0, NotAfter = 100, SerialNumber = 10\<rparr> \<and>
   fst (Validate test_deps 500 \<lparr>mspManager = [''Org1MSP'' \<mapsto> test_msp1]\<rparr> [1, 10]) =
     Some TemporalValidityError \<and>
   Verify test_deps \<lparr>mspManager = [''Org1MSP'' \<mapsto> test_msp1]\<rparr> [1, 10] [7, 7] [7, 7] =
     (None, [CallDeserializeIdentity [1, 10], CallIdentityVerify [7, 7] [7, 7]]) \<and>
   Verify test_deps \<lparr>mspManager = [''Org1MSP'' \<mapsto> test_msp1]\<rparr> [1, 10] [7, 7] [7, 8] =
     (Some (errors_New ''The signature is invalid''),
      [CallDeserializeIdentity [1, 10], CallIdentityVerify [7, 7] [7, 8]])"
proof -
  have p: "ParseCertificate test_deps [10] = Inr \<lparr>NotBefore = 0, NotAfter = 100, SerialNumber = 10\<rparr>"
    by (simp add: test_deps_def test_ParseCertificate_def)
  have s1: "identityVerify test_deps \<lparr>NotBefore = 0, NotAfter = 100, SerialNumber = 10\<rparr> [7, 7] [7, 7] = None"
    by (simp add: test_deps_def)
  have s2: "identityVerify test_deps \<lparr>NotBefore = 0, NotAfter = 100, SerialNumber = 10\<rparr> [7, 7] [7, 8] =
      Some (errors_New ''The signature is invalid'')"
    by (simp add: test_deps_def)
  note t = Verify_no_temporal_check[OF test_unmarshal_sid test_pem_sid test_parse_sid test_expired,
      of "\<lparr>mspManager = [''Org1MSP'' \<mapsto> test_msp1]\<rparr>"]
  from t[of "[7, 7]" "[7, 7]"] t[of "[7, 7]" "[7, 8]"] test_unmarshal_sid p s1 s2
  show ?thesis by (simp add: test_deserialize)
qed

section \<open>The empty configuration list\<close>

text \<open>
  Claim C8.  Assembling from an empty configuration list is not an error:
  \<^verbatim>\<open>createMSPManager\<close> returns the manager that \<^verbatim>\<open>msp.NewMSPManager\<close> made, on
  which \<^verbatim>\<open>Setup\<close> was not called, and does nothing else; \<^verbatim>\<open>New\<close> wraps it.
  With the registry of the spec as the manager, the registry is empty.
\<close>

theorem createMSPManager_empty:
  "createMSPManager D now [] = Some (Inr (NewMSPManager D), []) \<and>
   New D now [] = Some (Inr \<lparr>mspManager = NewMSPManager D\<rparr>, []) \<and>
   createMSPManager (with_registry R) now [] = Some (Inr Map.empty, [])"
  by (simp add: createMSPManager_def New_def with_registry_def)

section \<open>The errors of single configurations\<close>

lemma createMSPManager_prefix_failed:
  assumes "MSPs = pre @ config # post"
    and "\<forall>p\<in>set pre. \<exists>msp. fst (loadMSP D p) = Inr msp"
    and "fst (loadMSP D config) = Inl e"
  shows "createMSPManager D now MSPs =
     Some (Inl (errors_WithMessage e ''load MSPs from config failed''), snd (loadMSPs D MSPs))"
proof -
  from loadMSPs_loop_fail[OF assms(2,3)] assms(1) have "fst (loadMSPs D MSPs) = Inl e"
    by (simp add: fst_loadMSPs)
  then show ?thesis by (rule createMSPManager_load_failed)
qed

text \<open>
  Claim C6, amended.  For every configuration whose provider type is not
  \<^verbatim>\<open>msp.FABRIC\<close>, and every list in which all configurations before it load (in
  particular the list of that configuration alone), \<^verbatim>\<open>createMSPManager\<close> returns no
  manager and the error \<open>MSP type not supported\<close> with that type, under the message
  \<open>load MSPs from config failed\<close>.  When an earlier configuration of the list fails,
  the error returned is that configuration's.
\<close>

theorem unsupported_provider_type:
  assumes "MSPs = pre @ config # post"
    and "\<forall>p\<in>set pre. \<exists>msp. fst (loadMSP D p) = Inr msp"
    and "sint (config_Type config) \<noteq> FABRIC D"
  shows "\<exists>evs. createMSPManager D now MSPs =
     Some (Inl (errors_WithMessage
                  (errors_Errorf ''MSP type not supported: %v'' [sint (config_Type config)])
                  ''load MSPs from config failed''), evs)"
proof -
  from assms(3) have "fst (loadMSP D config) =
      Inl (errors_Errorf ''MSP type not supported: %v'' [sint (config_Type config)])"
    by (simp add: loadMSP_def)
  from createMSPManager_prefix_failed[OF assms(1,2) this] show ?thesis by blast
qed

text \<open>
  C6 on the test double: the configuration of another type after one that loads, and
  alone.
\<close>

theorem unsupported_provider_type_witness:
  "[test_org1, test_other_type, test_org2] = [test_org1] @ test_other_type # [test_org2] \<and>
   sint (config_Type test_other_type) \<noteq> FABRIC test_deps \<and>
   (\<exists>evs. createMSPManager test_deps 500 [test_org1, test_other_type, test_org2] =
      Some (Inl (errors_WithMessage
                   (errors_Errorf ''MSP type not supported: %v'' [sint (config_Type test_other_type)])
                   ''load MSPs from config failed''), evs)) \<and>
   createMSPManager test_deps 500 [test_other_type] =
      Some (Inl (errors_WithMessage (errors_Errorf ''MSP type not supported: %v'' [1])
                   ''load MSPs from config failed''),
            [Logf DEBUG ''loadMSPs - start number of msps=%d'' [AInt 1]])"
proof -
  have h1: "[test_org1, test_other_type, test_org2] = [test_org1] @ test_other_type # [test_org2]"
    by simp
  have h2: "\<forall>p\<in>set [test_org1]. \<exists>msp. fst (loadMSP test_deps p) = Inr msp"
    by (simp add: test_loadMSP_org1)
  have h3: "sint (config_Type test_other_type) \<noteq> FABRIC test_deps"
    by (simp add: test_other_type_def test_deps_def)
  have h4: "createMSPManager test_deps 500 [test_other_type] =
      Some (Inl (errors_WithMessage (errors_Errorf ''MSP type not supported: %v'' [1])
                   ''load MSPs from config failed''),
            [Logf DEBUG ''loadMSPs - start number of msps=%d'' [AInt 1]])"
    by (simp add: createMSPManager_def loadMSPs_def test_loadMSP_other_type)
  from unsupported_provider_type[OF h1 h2 h3, of 500] h1 h3 h4 show ?thesis by blast
qed

text \<open>
  C6 as stated fails on the test double: in a list that holds a configuration without
  payload before the configuration of another type, the error returned is the missing
  payload, not the unsupported type.
\<close>

theorem unsupported_provider_type_counterexample:
  "test_other_type \<in> set [test_no_payload, test_other_type] \<and>
   sint (config_Type test_other_type) \<noteq> FABRIC test_deps \<and>
   createMSPManager test_deps 500 [test_no_payload, test_other_type] =
     Some (Inl (errors_WithMessage
                  (errors_Errorf
                     (''MSP configuration missing the payload in the '' @ [CHR 0x27] @ ''Config''
                      @ [CHR 0x27] @ '' property'') [])
                  ''load MSPs from config failed''),
           [Logf DEBUG ''loadMSPs - start number of msps=%d'' [AInt 2]])"
  by (simp add: createMSPManager_def loadMSPs_def test_loadMSP_no_payload)
     (simp add: test_other_type_def test_deps_def)

text \<open>
  Claim C7, amended.  For every configuration of type \<^verbatim>\<open>msp.FABRIC\<close> with a payload
  that is not empty and decodes to a \<^verbatim>\<open>FabricMSPConfig\<close> with a name and without
  root certificates, and every list in which all configurations before it load,
  \<^verbatim>\<open>createMSPManager\<close> returns no manager and the error
  \<open>MSP Configuration missing root certificates ...\<close>, under the message
  \<open>load MSPs from config failed\<close>.  The name is checked before the root certificates.
\<close>

theorem missing_root_certs:
  assumes "MSPs = pre @ config # post"
    and "\<forall>p\<in>set pre. \<exists>msp. fst (loadMSP D p) = Inr msp"
    and "sint (config_Type config) = FABRIC D"
    and "config_Config config \<noteq> []"
    and "unmarshalFabricMSPConfig D (config_Config config) = Inr fabricConfig"
    and "Name fabricConfig \<noteq> []"
    and "RootCerts fabricConfig = []"
  shows "\<exists>evs. createMSPManager D now MSPs =
     Some (Inl (errors_WithMessage
                  (errors_New
                     ''MSP Configuration missing root certificates required for validating signing certificates'')
                  ''load MSPs from config failed''), evs)"
proof -
  from assms(3-7) have "fst (loadMSP D config) =
      Inl (errors_New
        ''MSP Configuration missing root certificates required for validating signing certificates'')"
    by (simp add: loadMSP_def getFabricConfig_def)
  from createMSPManager_prefix_failed[OF assms(1,2) this] show ?thesis by blast
qed

text \<open>
  C7 on the test double: a named configuration without root certificates after one
  that loads.
\<close>

theorem missing_root_certs_witness:
  "[test_org1, test_no_roots] = [test_org1] @ test_no_roots # [] \<and>
   sint (config_Type test_no_roots) = FABRIC test_deps \<and>
   config_Config test_no_roots \<noteq> [] \<and>
   unmarshalFabricMSPConfig test_deps (config_Config test_no_roots) =
     Inr \<lparr>Name = ''Org1MSP'', RootCerts = [], IntermediateCerts = [],
          OrganizationalUnitIdentifiers = [], TlsRootCerts = [], TlsIntermediateCerts = []\<rparr> \<and>
   (\<exists>evs. createMSPManager test_deps 500 [test_org1, test_no_roots] =
     Some (Inl (errors_WithMessage
                  (errors_New
                     ''MSP Configuration missing root certificates required for validating signing certificates'')
                  ''load MSPs from config failed''), evs))"
proof -
  have h1: "[test_org1, test_no_roots] = [test_org1] @ test_no_roots # []" by simp
  have h2: "\<forall>p\<in>set [test_org1]. \<exists>msp. fst (loadMSP test_deps p) = Inr msp"
    by (simp add: test_loadMSP_org1)
  have h3: "sint (config_Type test_no_roots) = FABRIC test_deps"
    by (simp add: test_no_roots_def test_deps_def)
  have h4: "config_Config test_no_roots \<noteq> []" by (simp add: test_no_roots_def)
  have h5: "unmarshalFabricMSPConfig test_deps (config_Config test_no_roots) =
     Inr \<lparr>Name = ''Org1MSP'', RootCerts = [], IntermediateCerts = [],
          OrganizationalUnitIdentifiers = [], TlsRootCerts = [], TlsIntermediateCerts = []\<rparr>"
    by (simp add: test_no_roots_def test_deps_def test_unmarshalFabricMSPConfig_def)
  have h6: "Name \<lparr>Name = ''Org1MSP'', RootCerts = [], IntermediateCerts = [],
          OrganizationalUnitIdentifiers = [], TlsRootCerts = [], TlsIntermediateCerts = []\<rparr> \<noteq> []"
    by simp
  have h7: "RootCerts \<lparr>Name = ''Org1MSP'', RootCerts = [], IntermediateCerts = [],
          OrganizationalUnitIdentifiers = [], TlsRootCerts = [], TlsIntermediateCerts = []\<rparr> = []"
    by simp
  from missing_root_certs[OF h1 h2 h3 h4 h5 h6 h7, of 500] h1 h3 h4 h5 show ?thesis by blast
qed

text \<open>
  C7 as stated fails on the test double: the only configuration of the list is of the
  supported type and decodes to a \<^verbatim>\<open>FabricMSPConfig\<close> without root certificates and
  without a name, and the error returned is the missing name.
\<close>

theorem missing_root_certs_counterexample:
  "test_no_name \<in> set [test_no_name] \<and>
   sint (config_Type test_no_name) = FABRIC test_deps \<and>
   unmarshalFabricMSPConfig test_deps (config_Config test_no_name) =
     Inr \<lparr>Name = [], RootCerts = [], IntermediateCerts = [],
          OrganizationalUnitIdentifiers = [], TlsRootCerts = [], TlsIntermediateCerts = []\<rparr> \<and>
   createMSPManager test_deps 500 [test_no_name] =
     Some (Inl (errors_WithMessage (errors_New ''MSP Configuration missing name'')
                  ''load MSPs from config failed''),
           [Logf DEBUG ''loadMSPs - start number of msps=%d'' [AInt 1]])"
  by (simp add: createMSPManager_def loadMSPs_def test_loadMSP_no_name)
     (simp add: test_no_name_def test_deps_def test_unmarshalFabricMSPConfig_def)

section \<open>The TLS certificate pool\<close>

lemma createMSPManager_setup_failed:
  assumes "MSPs \<noteq> []"
    and "fst (loadMSPs D MSPs) = Inr msps"
    and "managerSetup D (NewMSPManager D) msps = Inl e"
  shows "createMSPManager D now MSPs =
     Some (Inl (errors_WithMessage e ''MSPManager Setup failed''), snd (loadMSPs D MSPs))"
  using assms by (cases "loadMSPs D MSPs") (simp add: createMSPManager_def)

lemma createMSPManager_ok:
  assumes "pem_progress D"
    and "MSPs \<noteq> []"
    and "fst (loadMSPs D MSPs) = Inr msps"
    and "managerSetup D (NewMSPManager D) msps = Inr mgr"
  shows "createMSPManager D now MSPs =
     Some (Inr mgr,
           snd (loadMSPs D MSPs) @
           concat (map (addCertBlock D now) (concat (map (blocksOf D) (tlsBlobs D msps)))))"
  using assms(2-4)
  by (cases "loadMSPs D MSPs") (simp add: createMSPManager_def addMSPCerts_blocks[OF assms(1)])

text \<open>
  Claim C9.  The TLS certificate pool is fed only after the whole assembly succeeded.
  If some configuration of the list fails to load, or all load and the manager's
  \<^verbatim>\<open>Setup\<close> fails, then \<^verbatim>\<open>createMSPManager\<close> returns an error and has handed no
  certificate to \<^verbatim>\<open>TLSCACertPool\<close>, also none of the MSPs that were built before
  the failure.
\<close>

theorem no_forwarding_on_failure:
  assumes "(\<exists>config\<in>set MSPs. \<exists>err. fst (loadMSP D config) = Inl err) \<or>
           (MSPs \<noteq> [] \<and> (\<exists>msps err. fst (loadMSPs D MSPs) = Inr msps \<and>
              managerSetup D (NewMSPManager D) msps = Inl err))"
  shows "\<exists>err evs. createMSPManager D now MSPs = Some (Inl err, evs) \<and> forwarded evs = []"
proof -
  have f: "forwarded (snd (loadMSPs D MSPs)) = []"
    by (rule forwarded_log) (rule loadMSPs_events_log)
  from assms show ?thesis
  proof
    assume "\<exists>config\<in>set MSPs. \<exists>err. fst (loadMSP D config) = Inl err"
    then obtain config err where "config \<in> set MSPs" "fst (loadMSP D config) = Inl err" by blast
    from first_failure[OF this] obtain pre c post e where
      "MSPs = pre @ c # post" "\<forall>p\<in>set pre. \<exists>msp. fst (loadMSP D p) = Inr msp"
      "fst (loadMSP D c) = Inl e" by blast
    from createMSPManager_prefix_failed[OF this] f show ?thesis by blast
  next
    assume "MSPs \<noteq> [] \<and> (\<exists>msps err. fst (loadMSPs D MSPs) = Inr msps \<and>
              managerSetup D (NewMSPManager D) msps = Inl err)"
    then obtain msps err where "MSPs \<noteq> []" "fst (loadMSPs D MSPs) = Inr msps"
      "managerSetup D (NewMSPManager D) msps = Inl err" by blast
    from createMSPManager_setup_failed[OF this] f show ?thesis by blast
  qed
qed

lemma test_loadMSPs_one_no_setup:
  "loadMSPs test_deps_no_setup [test_org1] =
     (Inr [test_msp1],
      [Logf DEBUG ''loadMSPs - start number of msps=%d'' [AInt 1],
       Logf DEBUG ''loadMSPs - adding msp=%s'' [AStr ''Org1MSP''],
       Logf DEBUG ''loadMSPs - loaded %d MSPs'' [AInt 1]])"
  by (simp add: loadMSPs_def loadMSP_def test_deps_no_setup_def test_deps_def getFabricConfig_def
      test_unmarshalFabricMSPConfig_def test_org1_def test_msp1_def)

text \<open>
  C9 on the test double, for both ways to fail: an MSP with TLS certificates is built,
  and then the next configuration fails to load, or \<^verbatim>\<open>Setup\<close> fails.
\<close>

theorem no_forwarding_on_failure_witness:
  "GetTLSRootCerts test_deps test_msp1 = [[10, 90, 200]] \<and>
   fst (loadMSP test_deps test_org1) = Inr test_msp1 \<and>
   test_no_roots \<in> set [test_org1, test_no_roots] \<and>
   (\<exists>err evs. createMSPManager test_deps 500 [test_org1, test_no_roots] = Some (Inl err, evs) \<and>
      forwarded evs = []) \<and>
   fst (loadMSPs test_deps_no_setup [test_org1]) = Inr [test_msp1] \<and>
   managerSetup test_deps_no_setup (NewMSPManager test_deps_no_setup) [test_msp1] =
     Inl (errors_New ''could not extract msp identifier'') \<and>
   (\<exists>err evs. createMSPManager test_deps_no_setup 500 [test_org1] = Some (Inl err, evs) \<and>
      forwarded evs = [])"
proof -
  have a1: "GetTLSRootCerts test_deps test_msp1 = [[10, 90, 200]]"
    by (simp add: test_deps_def test_msp1_def)
  have a2: "fst (loadMSP test_deps test_org1) = Inr test_msp1" by (simp add: test_loadMSP_org1)
  have a3: "test_no_roots \<in> set [test_org1, test_no_roots]" by simp
  have a4: "fst (loadMSP test_deps test_no_roots) =
     Inl (errors_New
       ''MSP Configuration missing root certificates required for validating signing certificates'')"
    by (simp add: test_loadMSP_no_roots)
  have b1: "fst (loadMSPs test_deps_no_setup [test_org1]) = Inr [test_msp1]"
    by (simp add: test_loadMSPs_one_no_setup)
  have b2: "managerSetup test_deps_no_setup (NewMSPManager test_deps_no_setup) [test_msp1] =
     Inl (errors_New ''could not extract msp identifier'')"
    by (simp add: test_deps_no_setup_def)
  have b3: "[test_org1] \<noteq> []" by simp
  from a3 a4 have h1: "(\<exists>config\<in>set [test_org1, test_no_roots]. \<exists>err. fst (loadMSP test_deps config) = Inl err) \<or>
           ([test_org1, test_no_roots] \<noteq> [] \<and> (\<exists>msps err. fst (loadMSPs test_deps [test_org1, test_no_roots]) = Inr msps \<and>
              managerSetup test_deps (NewMSPManager test_deps) msps = Inl err))" by blast
  from b1 b2 b3 have h2: "(\<exists>config\<in>set [test_org1]. \<exists>err. fst (loadMSP test_deps_no_setup config) = Inl err) \<or>
           ([test_org1] \<noteq> [] \<and> (\<exists>msps err. fst (loadMSPs test_deps_no_setup [test_org1]) = Inr msps \<and>
              managerSetup test_deps_no_setup (NewMSPManager test_deps_no_setup) msps = Inl err))" by blast
  from no_forwarding_on_failure[OF h1, of 500] no_forwarding_on_failure[OF h2, of 500]
    a1 a2 a3 b1 b2
  show ?thesis by blast
qed

lemma forwarded_addCertBlock:
  "forwarded (addCertBlock D now block) =
     (if block_Type block = ''CERTIFICATE'' \<and> block_Headers block = [] then
        (case ParseCertificate D (block_Bytes block) of Inl err \<Rightarrow> [] | Inr cert \<Rightarrow> [cert])
      else [])"
  by (simp add: addCertBlock_def forwarded_def ValidateCertificateDates_def split: sum.splits)

lemma warned_addCertBlock:
  "warned (addCertBlock D now block) =
     (if block_Type block = ''CERTIFICATE'' \<and> block_Headers block = [] then
        (case ParseCertificate D (block_Bytes block) of
           Inl err \<Rightarrow> []
         | Inr cert \<Rightarrow>
             if now < NotBefore cert \<or> NotAfter cert < now
             then [[AStr ''%v'', AErr TemporalValidityError]] else [])
      else [])"
  by (simp add: addCertBlock_def warned_def ValidateCertificateDates_def split: sum.splits)

lemma forwarded_concat: "forwarded (concat xss) = concat (map forwarded xss)"
  by (induction xss) (simp_all add: forwarded_append, simp add: forwarded_def)

lemma warned_concat: "warned (concat xss) = concat (map warned xss)"
  by (induction xss) (simp_all add: warned_append, simp add: warned_def)

lemma length_addCertBlock:
  "length (addCertBlock D now block) =
     length (forwarded (addCertBlock D now block)) + length (warned (addCertBlock D now block))"
  by (simp add: addCertBlock_def forwarded_def warned_def ValidateCertificateDates_def
      split: sum.splits)

lemma length_addCertBlocks:
  "length (concat (map (addCertBlock D now) blocks)) =
     length (forwarded (concat (map (addCertBlock D now) blocks))) +
     length (warned (concat (map (addCertBlock D now) blocks)))"
  by (induction blocks) (simp_all add: forwarded_append warned_append length_addCertBlock,
      simp add: forwarded_def warned_def)

text \<open>
  Claim C10.  With a PEM decoder that consumes input, \<^verbatim>\<open>addCertsToConfig\<close> returns,
  and the certificates it hands to \<^verbatim>\<open>TLSCACertPool\<close> are, in order, the certificates
  of all decoded blocks of type \<open>CERTIFICATE\<close> without headers that parse, whatever
  their dates: a certificate outside its validity window is handed over too, and
  \<^verbatim>\<open>logger.Warn\<close> is called once for each such certificate.  These are all its
  effects: the blocks of another type, with headers, or that do not parse cause nothing.
\<close>

theorem addCertsToConfig_forwards_expired:
  assumes "pem_progress D"
  shows "\<exists>evs. addCertsToConfig D now pemCerts = Some evs \<and>
     forwarded evs =
       concat (map (\<lambda>block.
         if block_Type block = ''CERTIFICATE'' \<and> block_Headers block = [] then
           (case ParseCertificate D (block_Bytes block) of Inl err \<Rightarrow> [] | Inr cert \<Rightarrow> [cert])
         else []) (blocksOf D pemCerts)) \<and>
     warned evs =
       concat (map (\<lambda>block.
         if block_Type block = ''CERTIFICATE'' \<and> block_Headers block = [] then
           (case ParseCertificate D (block_Bytes block) of
              Inl err \<Rightarrow> []
            | Inr cert \<Rightarrow>
                if now < NotBefore cert \<or> NotAfter cert < now
                then [[AStr ''%v'', AErr TemporalValidityError]] else [])
         else []) (blocksOf D pemCerts)) \<and>
     length evs = length (forwarded evs) + length (warned evs)"
proof -
  let ?evs = "concat (map (addCertBlock D now) (blocksOf D pemCerts))"
  have 1: "addCertsToConfig D now pemCerts = Some ?evs"
    by (rule addCertsToConfig_blocksOf[OF assms])
  have 2: "forwarded ?evs = concat (map (\<lambda>block.
         if block_Type block = ''CERTIFICATE'' \<and> block_Headers block = [] then
           (case ParseCertificate D (block_Bytes block) of Inl err \<Rightarrow> [] | Inr cert \<Rightarrow> [cert])
         else []) (blocksOf D pemCerts))"
    by (simp add: forwarded_concat comp_def forwarded_addCertBlock)
  have 3: "warned ?evs = concat (map (\<lambda>block.
         if block_Type block = ''CERTIFICATE'' \<and> block_Headers block = [] then
           (case ParseCertificate D (block_Bytes block) of
              Inl err \<Rightarrow> []
            | Inr cert \<Rightarrow>
                if now < NotBefore cert \<or> NotAfter cert < now
                then [[AStr ''%v'', AErr TemporalValidityError]] else [])
         else []) (blocksOf D pemCerts))"
    by (simp add: warned_concat comp_def warned_addCertBlock)
  have 4: "length ?evs = length (forwarded ?evs) + length (warned ?evs)"
    by (rule length_addCertBlocks)
  from 1 2 3 4 show ?thesis by blast
qed

lemma test_blocksOf:
  "blocksOf test_deps [10, 90, 200, 127, 150, 0, 20] =
     [\<lparr>block_Type = ''CERTIFICATE'', block_Headers = [], block_Bytes = [10]\<rparr>,
      \<lparr>block_Type = ''CERTIFICATE'', block_Headers = [], block_Bytes = [90]\<rparr>,
      \<lparr>block_Type = ''X509 CRL'', block_Headers = [], block_Bytes = [200]\<rparr>,
      \<lparr>block_Type = ''CERTIFICATE'', block_Headers = [(''Proc-Type'', ''4,ENCRYPTED'')],
        block_Bytes = [127]\<rparr>,
      \<lparr>block_Type = ''X509 CRL'', block_Headers = [], block_Bytes = [150]\<rparr>]"
  by (simp add: blocksOf_def test_deps_def test_pemDecode_def)

text \<open>
  C10 on the test double, at time 500: an expired certificate, a valid one, a block of
  another type, a block with a header, another block of another type, and text in which
  no block is found, where the loop ends.
\<close>

theorem addCertsToConfig_forwards_expired_witness:
  "pem_progress test_deps \<and>
   ParseCertificate test_deps [10] = Inr \<lparr>NotBefore = 0, NotAfter = 100, SerialNumber = 10\<rparr> \<and>
   (\<exists>evs. addCertsToConfig test_deps 500 [10, 90, 200, 127, 150, 0, 20] = Some evs \<and>
      forwarded evs = [\<lparr>NotBefore = 0, NotAfter = 100, SerialNumber = 10\<rparr>,
                       \<lparr>NotBefore = 0, NotAfter = 900, SerialNumber = 90\<rparr>] \<and>
      warned evs = [[AStr ''%v'', AErr TemporalValidityError]] \<and>
      length evs = 3)"
proof -
  have p: "ParseCertificate test_deps [10] = Inr \<lparr>NotBefore = 0, NotAfter = 100, SerialNumber = 10\<rparr>"
    by (simp add: test_deps_def test_ParseCertificate_def)
  from addCertsToConfig_forwards_expired[OF test_deps_progress, of 500 "[10, 90, 200, 127, 150, 0, 20]"]
  obtain evs where e: "addCertsToConfig test_deps 500 [10, 90, 200, 127, 150, 0, 20] = Some evs"
    and f: "forwarded evs =
       concat (map (\<lambda>block.
         if block_Type block = ''CERTIFICATE'' \<and> block_Headers block = [] then
           (case ParseCertificate test_deps (block_Bytes block) of Inl err \<Rightarrow> [] | Inr cert \<Rightarrow> [cert])
         else []) (blocksOf test_deps [10, 90, 200, 127, 150, 0, 20]))"
    and w: "warned evs =
       concat (map (\<lambda>block.
         if block_Type block = ''CERTIFICATE'' \<and> block_Headers block = [] then
           (case ParseCertificate test_deps (block_Bytes block) of
              Inl err \<Rightarrow> []
            | Inr cert \<Rightarrow>
                if 500 < NotBefore cert \<or> NotAfter cert < 500
                then [[AStr ''%v'', AErr TemporalValidityError]] else [])
         else []) (blocksOf test_deps [10, 90, 200, 127, 150, 0, 20]))"
    and l: "length evs = length (forwarded evs) + length (warned evs)" by blast
  have f': "forwarded evs = [\<lparr>NotBefore = 0, NotAfter = 100, SerialNumber = 10\<rparr>,
                       \<lparr>NotBefore = 0, NotAfter = 900, SerialNumber = 90\<rparr>]"
    unfolding f test_blocksOf by (simp add: test_deps_def test_ParseCertificate_def)
  have w': "warned evs = [[AStr ''%v'', AErr TemporalValidityError]]"
    unfolding w test_blocksOf by (simp add: test_deps_def test_ParseCertificate_def)
  from l f' w' have "length evs = 3" by simp
  with e f' w' p test_deps_progress show ?thesis by blast
qed

lemma New_ok:
  "createMSPManager D now MSPs = Some (Inr mgr, evs) \<Longrightarrow>
   New D now MSPs = Some (Inr \<lparr>mspManager = mgr\<rparr>, evs)"
  by (simp add: New_def)

lemma warn_addCertBlock:
  assumes "block_Type block = ''CERTIFICATE''" and "block_Headers block = []"
    and "ParseCertificate D (block_Bytes block) = Inr cert"
    and "now < NotBefore cert \<or> NotAfter cert < now"
  shows "addCertBlock D now block =
     [Log WARN [AStr ''%v'', AErr TemporalValidityError], CallTLSCACertPool cert]"
  using assms by (simp add: addCertBlock_def ValidateCertificateDates_def)

text \<open>
  Claim C5.  A TLS certificate outside its validity window is not fatal.  With a PEM
  decoder that consumes input: if the configurations load, the manager's \<^verbatim>\<open>Setup\<close>
  succeeds, and a TLS root or intermediate certificate blob of a built MSP holds a
  certificate outside its validity window at the current time, then
  \<^verbatim>\<open>createMSPManager\<close> returns the manager and \<^verbatim>\<open>New\<close> the membership object,
  the failure is logged through \<^verbatim>\<open>logger.Warn\<close>, and the certificate is handed to
  \<^verbatim>\<open>TLSCACertPool\<close>.  The TLS certificates are the ones the built MSP returns from
  \<^verbatim>\<open>GetTLSRootCerts\<close> and \<^verbatim>\<open>GetTLSIntermediateCerts\<close>.
\<close>

theorem tls_date_failure_not_fatal:
  assumes "pem_progress D"
    and "MSPs \<noteq> []"
    and "fst (loadMSPs D MSPs) = Inr msps"
    and "managerSetup D (NewMSPManager D) msps = Inr mgr"
    and "pemCerts \<in> set (tlsBlobs D msps)"
    and "block \<in> set (blocksOf D pemCerts)"
    and "block_Type block = ''CERTIFICATE''" and "block_Headers block = []"
    and "ParseCertificate D (block_Bytes block) = Inr cert"
    and "now < NotBefore cert \<or> NotAfter cert < now"
  shows "\<exists>evs. createMSPManager D now MSPs = Some (Inr mgr, evs) \<and>
           New D now MSPs = Some (Inr \<lparr>mspManager = mgr\<rparr>, evs) \<and>
           Log WARN [AStr ''%v'', AErr TemporalValidityError] \<in> set evs \<and>
           CallTLSCACertPool cert \<in> set evs"
proof -
  let ?tls = "concat (map (addCertBlock D now) (concat (map (blocksOf D) (tlsBlobs D msps))))"
  have c: "createMSPManager D now MSPs = Some (Inr mgr, snd (loadMSPs D MSPs) @ ?tls)"
    by (rule createMSPManager_ok[OF assms(1-4)])
  from assms(5,6) have "block \<in> set (concat (map (blocksOf D) (tlsBlobs D msps)))" by auto
  then have "set (addCertBlock D now block) \<subseteq> set ?tls" by auto
  with warn_addCertBlock[OF assms(7-10)]
  have "Log WARN [AStr ''%v'', AErr TemporalValidityError] \<in> set ?tls"
    and "CallTLSCACertPool cert \<in> set ?tls" by auto
  with c New_ok[OF c] show ?thesis by auto
qed

lemma test_loadMSPs_one:
  "loadMSPs test_deps [test_org1] =
     (Inr [test_msp1],
      [Logf DEBUG ''loadMSPs - start number of msps=%d'' [AInt 1],
       Logf DEBUG ''loadMSPs - adding msp=%s'' [AStr ''Org1MSP''],
       Logf DEBUG ''loadMSPs - loaded %d MSPs'' [AInt 1]])"
  by (simp add: loadMSPs_def test_loadMSP_org1)

lemma test_blocksOf_tls:
  "blocksOf test_deps [10, 90, 200] =
     [\<lparr>block_Type = ''CERTIFICATE'', block_Headers = [], block_Bytes = [10]\<rparr>,
      \<lparr>block_Type = ''CERTIFICATE'', block_Headers = [], block_Bytes = [90]\<rparr>,
      \<lparr>block_Type = ''X509 CRL'', block_Headers = [], block_Bytes = [200]\<rparr>]"
  by (simp add: blocksOf_def test_deps_def test_pemDecode_def)

text \<open>
  C5 on the test double: \<open>Org1MSP\<close> has a TLS root certificate that expired at time
  100, and is assembled at time 500.
\<close>

theorem tls_date_failure_not_fatal_witness:
  "pem_progress test_deps \<and>
   fst (loadMSPs test_deps [test_org1]) = Inr [test_msp1] \<and>
   managerSetup test_deps (NewMSPManager test_deps) [test_msp1] = Inr [''Org1MSP'' \<mapsto> test_msp1] \<and>
   [10, 90, 200] \<in> set (tlsBlobs test_deps [test_msp1]) \<and>
   ParseCertificate test_deps [10] = Inr \<lparr>NotBefore = 0, NotAfter = 100, SerialNumber = 10\<rparr> \<and>
   (\<exists>evs. createMSPManager test_deps 500 [test_org1] = Some (Inr [''Org1MSP'' \<mapsto> test_msp1], evs) \<and>
      New test_deps 500 [test_org1] = Some (Inr \<lparr>mspManager = [''Org1MSP'' \<mapsto> test_msp1]\<rparr>, evs) \<and>
      Log WARN [AStr ''%v'', AErr TemporalValidityError] \<in> set evs \<and>
      CallTLSCACertPool \<lparr>NotBefore = 0, NotAfter = 100, SerialNumber = 10\<rparr> \<in> set evs)"
proof -
  have h2: "[test_org1] \<noteq> []" by simp
  have h3: "fst (loadMSPs test_deps [test_org1]) = Inr [test_msp1]"
    by (simp add: test_loadMSPs_one)
  have h4: "managerSetup test_deps (NewMSPManager test_deps) [test_msp1] = Inr [''Org1MSP'' \<mapsto> test_msp1]"
    by (simp add: test_deps_def test_msp1_def)
  have h5: "[10, 90, 200] \<in> set (tlsBlobs test_deps [test_msp1])"
    by (simp add: tlsBlobs_def test_deps_def test_msp1_def)
  have h6: "\<lparr>block_Type = ''CERTIFICATE'', block_Headers = [], block_Bytes = [10]\<rparr>
      \<in> set (blocksOf test_deps [10, 90, 200])"
    by (simp add: test_blocksOf_tls)
  have h7: "block_Type \<lparr>block_Type = ''CERTIFICATE'', block_Headers = [], block_Bytes = [10]\<rparr> = ''CERTIFICATE''"
    by simp
  have h8: "block_Headers \<lparr>block_Type = ''CERTIFICATE'', block_Headers = [], block_Bytes = [10]\<rparr> = []"
    by simp
  have p: "ParseCertificate test_deps [10] = Inr \<lparr>NotBefore = 0, NotAfter = 100, SerialNumber = 10\<rparr>"
    by (simp add: test_deps_def test_ParseCertificate_def)
  from tls_date_failure_not_fatal[OF test_deps_progress h2 h3 h4 h5 h6 h7 h8 test_parse_sid test_expired]
    test_deps_progress h3 h4 h5 p
  show ?thesis by blast
qed

section \<open>The size of the registry\<close>

lemma registry_Setup_dom:
  "\<forall>msp\<in>set msps. \<exists>mspID. getId msp = Inr mspID \<Longrightarrow>
   \<exists>reg'. registry_Setup getId reg msps = Inr reg' \<and>
     dom reg' = dom reg \<union> {mspID. \<exists>msp\<in>set msps. getId msp = Inr mspID}"
proof (induction msps arbitrary: reg)
  case Nil
  then show ?case by simp
next
  case (Cons msp msps)
  from Cons.prems obtain mspID where k: "getId msp = Inr mspID" by auto
  from Cons.prems have "\<forall>msp\<in>set msps. \<exists>mspID. getId msp = Inr mspID" by simp
  from Cons.IH[OF this, of "reg(mspID \<mapsto> msp)"] obtain reg' where
    r: "registry_Setup getId (reg(mspID \<mapsto> msp)) msps = Inr reg'"
    and d: "dom reg' = dom (reg(mspID \<mapsto> msp)) \<union> {mspID. \<exists>msp\<in>set msps. getId msp = Inr mspID}"
    by blast
  from k r have "registry_Setup getId reg (msp # msps) = Inr reg'" by simp
  moreover from d k have
    "dom reg' = dom reg \<union> {mspID. \<exists>m\<in>set (msp # msps). getId m = Inr mspID}" by auto
  ultimately show ?case by blast
qed

lemma identifiers_set:
  "\<forall>msp\<in>set msps. \<exists>mspID. getId msp = Inr mspID \<Longrightarrow>
   {mspID. \<exists>msp\<in>set msps. getId msp = Inr mspID} = set (map (\<lambda>msp. projr (getId msp)) msps)"
  by force

lemma identifiers_distinct:
  "\<forall>msp\<in>set msps. \<exists>mspID. getId msp = Inr mspID \<Longrightarrow> distinct (map getId msps) \<Longrightarrow>
   distinct (map (\<lambda>msp. projr (getId msp)) msps)"
proof (induction msps)
  case Nil
  then show ?case by simp
next
  case (Cons msp msps)
  from Cons.prems(1) obtain mspID where k: "getId msp = Inr mspID" by auto
  have "projr (getId msp) \<notin> (\<lambda>msp. projr (getId msp)) ` set msps"
  proof
    assume "projr (getId msp) \<in> (\<lambda>msp. projr (getId msp)) ` set msps"
    then obtain m where m: "m \<in> set msps" "projr (getId msp) = projr (getId m)" by auto
    from Cons.prems(1) m(1) obtain k' where "getId m = Inr k'" by auto
    with k m have "getId msp = getId m" by simp
    with m(1) have "getId msp \<in> getId ` set msps" by (rule_tac image_eqI)
    with Cons.prems(2) show False by simp
  qed
  with Cons show ?case by simp
qed

lemma with_registry_simps:
  "pem_progress (with_registry D) = pem_progress D"
  "GetIdentifier (with_registry D) = GetIdentifier D"
  "NewMSPManager (with_registry D) = Map.empty"
  "managerSetup (with_registry D) = registry_Setup (GetIdentifier D)"
  by (simp_all add: with_registry_def pem_progress_def)

text \<open>
  Claim C3, amended.  With the registry of the spec as the manager and a PEM decoder
  that consumes input, \<^verbatim>\<open>createMSPManager\<close> either fails, or returns a registry
  with one MSP built for each configuration, whose keys are exactly the identifiers of
  the built MSPs.  Its size is at most the number of configurations, and equals it when
  the identifiers of the built MSPs are pairwise distinct.
\<close>

theorem registry_size:
  assumes "pem_progress D"
  shows "(\<exists>err evs. createMSPManager (with_registry D) now MSPs = Some (Inl err, evs)) \<or>
     (\<exists>reg msps evs.
        createMSPManager (with_registry D) now MSPs = Some (Inr reg, evs) \<and>
        list_all2 (\<lambda>config msp. fst (loadMSP (with_registry D) config) = Inr msp) MSPs msps \<and>
        dom reg = {mspID. \<exists>msp\<in>set msps. GetIdentifier D msp = Inr mspID} \<and>
        card (dom reg) \<le> length MSPs \<and>
        (distinct (map (GetIdentifier D) msps) \<longrightarrow> card (dom reg) = length MSPs))"
proof (cases "MSPs = []")
  case True
  then have "createMSPManager (with_registry D) now MSPs = Some (Inr Map.empty, [])"
    by (simp add: createMSPManager_def with_registry_simps)
  with True show ?thesis by simp
next
  case False
  let ?R = "with_registry D"
  show ?thesis
  proof (cases "fst (loadMSPs ?R MSPs)")
    case (Inl err)
    from createMSPManager_load_failed[OF this] show ?thesis by blast
  next
    case (Inr msps)
    then have "fst (loadMSPs_loop ?R MSPs []) = Inr msps" by (simp add: fst_loadMSPs)
    from loadMSPs_loop_ok[OF this]
    have l: "list_all2 (\<lambda>config msp. fst (loadMSP ?R config) = Inr msp) MSPs msps" by simp
    then have len: "length msps = length MSPs" by (simp add: list_all2_lengthD)
    have ids: "\<forall>msp\<in>set msps. \<exists>mspID. GetIdentifier D msp = Inr mspID"
    proof
      fix msp assume "msp \<in> set msps"
      then obtain n where "n < length msps" "msps ! n = msp" by (auto simp: in_set_conv_nth)
      with l have "fst (loadMSP ?R (MSPs ! n)) = Inr msp" by (auto simp: list_all2_conv_all_nth)
      from loadMSP_identifier[OF this] show "\<exists>mspID. GetIdentifier D msp = Inr mspID"
        by (simp add: with_registry_simps)
    qed
    from registry_Setup_dom[OF ids, of Map.empty] obtain reg where
      s: "registry_Setup (GetIdentifier D) Map.empty msps = Inr reg"
      and d: "dom reg = {mspID. \<exists>msp\<in>set msps. GetIdentifier D msp = Inr mspID}" by auto
    from assms have "pem_progress ?R" by (simp add: with_registry_simps)
    from createMSPManager_ok[OF this False Inr, of reg now] s obtain evs where
      c: "createMSPManager ?R now MSPs = Some (Inr reg, evs)" by (simp add: with_registry_simps)
    from d identifiers_set[OF ids]
    have d': "dom reg = set (map (\<lambda>msp. projr (GetIdentifier D msp)) msps)" by simp
    have "card (dom reg) \<le> length (map (\<lambda>msp. projr (GetIdentifier D msp)) msps)"
      unfolding d' by (rule card_length)
    with len have le: "card (dom reg) \<le> length MSPs" by simp
    have eq: "distinct (map (GetIdentifier D) msps) \<longrightarrow> card (dom reg) = length MSPs"
    proof
      assume "distinct (map (GetIdentifier D) msps)"
      from identifiers_distinct[OF ids this]
      have "card (dom reg) = length (map (\<lambda>msp. projr (GetIdentifier D msp)) msps)"
        unfolding d' by (rule distinct_card)
      with len show "card (dom reg) = length MSPs" by simp
    qed
    from c l d le eq show ?thesis by blast
  qed
qed


lemma with_registry_test_deps: "with_registry test_deps = test_deps"
  by (simp add: with_registry_def test_deps_def)

lemma test_loadMSPs_twice:
  "loadMSPs test_deps [test_org1, test_org1_again] =
     (Inr [test_msp1, test_msp1_again],
      [Logf DEBUG ''loadMSPs - start number of msps=%d'' [AInt 2],
       Logf DEBUG ''loadMSPs - adding msp=%s'' [AStr ''Org1MSP''],
       Logf DEBUG ''loadMSPs - adding msp=%s'' [AStr ''Org1MSP''],
       Logf DEBUG ''loadMSPs - loaded %d MSPs'' [AInt 2]])"
  by (simp add: loadMSPs_def test_loadMSP_org1 test_loadMSP_org1_again)

lemma test_setup_twice:
  "managerSetup test_deps (NewMSPManager test_deps) [test_msp1, test_msp1_again] =
     Inr [''Org1MSP'' \<mapsto> test_msp1_again]"
  by (simp add: test_deps_def test_msp1_def test_msp1_again_def)

lemma test_tls_events:
  "concat (map (addCertBlock test_deps 500) (blocksOf test_deps [10, 90, 200])) =
     [Log WARN [AStr ''%v'', AErr TemporalValidityError],
      CallTLSCACertPool \<lparr>NotBefore = 0, NotAfter = 100, SerialNumber = 10\<rparr>,
      CallTLSCACertPool \<lparr>NotBefore = 0, NotAfter = 900, SerialNumber = 90\<rparr>]"
  unfolding test_blocksOf_tls
  by (simp add: addCertBlock_def test_deps_def test_ParseCertificate_def ValidateCertificateDates_def)

lemma test_tlsBlobs_twice: "tlsBlobs test_deps [test_msp1, test_msp1_again] = [[10, 90, 200]]"
  by (simp add: tlsBlobs_def test_deps_def test_msp1_def test_msp1_again_def)

text \<open>
  C3 as stated fails on the test double: two configurations with the identifier
  \<open>Org1MSP\<close> are assembled without error into a registry with one entry, for a
  list of length two.
\<close>

theorem registry_size_counterexample:
  "createMSPManager (with_registry test_deps) 500 [test_org1, test_org1_again] =
     Some (Inr [''Org1MSP'' \<mapsto> test_msp1_again],
           [Logf DEBUG ''loadMSPs - start number of msps=%d'' [AInt 2],
            Logf DEBUG ''loadMSPs - adding msp=%s'' [AStr ''Org1MSP''],
            Logf DEBUG ''loadMSPs - adding msp=%s'' [AStr ''Org1MSP''],
            Logf DEBUG ''loadMSPs - loaded %d MSPs'' [AInt 2],
            Log WARN [AStr ''%v'', AErr TemporalValidityError],
            CallTLSCACertPool \<lparr>NotBefore = 0, NotAfter = 100, SerialNumber = 10\<rparr>,
            CallTLSCACertPool \<lparr>NotBefore = 0, NotAfter = 900, SerialNumber = 90\<rparr>]) \<and>
   card (dom [''Org1MSP'' \<mapsto> test_msp1_again]) = 1 \<and>
   length [test_org1, test_org1_again] = 2"
proof -
  have h3: "fst (loadMSPs test_deps [test_org1, test_org1_again]) = Inr [test_msp1, test_msp1_again]"
    by (simp add: test_loadMSPs_twice)
  have h2: "[test_org1, test_org1_again] \<noteq> []" by simp
  from createMSPManager_ok[OF test_deps_progress h2 h3 test_setup_twice, of 500]
  show ?thesis
    by (simp add: with_registry_test_deps test_loadMSPs_twice test_tlsBlobs_twice test_tls_events)
qed

text \<open>
  C3 on the test double: \<open>Org1MSP\<close> and \<open>Org2MSP\<close> give a registry of size two.
\<close>

theorem registry_size_witness:
  "pem_progress test_deps \<and>
   ((\<exists>err evs. createMSPManager (with_registry test_deps) 500 [test_org1, test_org2] =
        Some (Inl err, evs)) \<or>
    (\<exists>reg msps evs.
        createMSPManager (with_registry test_deps) 500 [test_org1, test_org2] = Some (Inr reg, evs) \<and>
        list_all2 (\<lambda>config msp. fst (loadMSP (with_registry test_deps) config) = Inr msp)
          [test_org1, test_org2] msps \<and>
        dom reg = {mspID. \<exists>msp\<in>set msps. GetIdentifier test_deps msp = Inr mspID} \<and>
        card (dom reg) \<le> length [test_org1, test_org2] \<and>
        (distinct (map (GetIdentifier test_deps) msps) \<longrightarrow>
           card (dom reg) = length [test_org1, test_org2]))) \<and>
   fst (loadMSPs test_deps [test_org1, test_org2]) =
     Inr [test_msp1,
          \<lparr>Name = ''Org2MSP'', RootCerts = [[90]], IntermediateCerts = [],
           OrganizationalUnitIdentifiers = [], TlsRootCerts = [[20]], TlsIntermediateCerts = []\<rparr>] \<and>
   managerSetup test_deps (NewMSPManager test_deps)
     [test_msp1,
      \<lparr>Name = ''Org2MSP'', RootCerts = [[90]], IntermediateCerts = [],
       OrganizationalUnitIdentifiers = [], TlsRootCerts = [[20]], TlsIntermediateCerts = []\<rparr>] =
     Inr [''Org1MSP'' \<mapsto> test_msp1,
          ''Org2MSP'' \<mapsto> \<lparr>Name = ''Org2MSP'', RootCerts = [[90]], IntermediateCerts = [],
             OrganizationalUnitIdentifiers = [], TlsRootCerts = [[20]], TlsIntermediateCerts = []\<rparr>] \<and>
   card (dom [''Org1MSP'' \<mapsto> test_msp1,
          ''Org2MSP'' \<mapsto> \<lparr>Name = ''Org2MSP'', RootCerts = [[90]], IntermediateCerts = [],
             OrganizationalUnitIdentifiers = [], TlsRootCerts = [[20]], TlsIntermediateCerts = []\<rparr>]) = 2"
proof -
  have o2: "loadMSP test_deps test_org2 =
     (Inr \<lparr>Name = ''Org2MSP'', RootCerts = [[90]], IntermediateCerts = [],
           OrganizationalUnitIdentifiers = [], TlsRootCerts = [[20]], TlsIntermediateCerts = []\<rparr>,
      [Logf DEBUG ''loadMSPs - adding msp=%s'' [AStr ''Org2MSP'']])"
    by (simp add: loadMSP_def test_deps_def getFabricConfig_def test_unmarshalFabricMSPConfig_def
        test_org2_def)
  have l: "fst (loadMSPs test_deps [test_org1, test_org2]) =
     Inr [test_msp1,
          \<lparr>Name = ''Org2MSP'', RootCerts = [[90]], IntermediateCerts = [],
           OrganizationalUnitIdentifiers = [], TlsRootCerts = [[20]], TlsIntermediateCerts = []\<rparr>]"
    by (simp add: loadMSPs_def test_loadMSP_org1 o2)
  have s: "managerSetup test_deps (NewMSPManager test_deps)
     [test_msp1,
      \<lparr>Name = ''Org2MSP'', RootCerts = [[90]], IntermediateCerts = [],
       OrganizationalUnitIdentifiers = [], TlsRootCerts = [[20]], TlsIntermediateCerts = []\<rparr>] =
     Inr [''Org1MSP'' \<mapsto> test_msp1,
          ''Org2MSP'' \<mapsto> \<lparr>Name = ''Org2MSP'', RootCerts = [[90]], IntermediateCerts = [],
             OrganizationalUnitIdentifiers = [], TlsRootCerts = [[20]], TlsIntermediateCerts = []\<rparr>]"
    by (simp add: test_deps_def test_msp1_def)
  have c: "card (dom [''Org1MSP'' \<mapsto> test_msp1,
          ''Org2MSP'' \<mapsto> \<lparr>Name = ''Org2MSP'', RootCerts = [[90]], IntermediateCerts = [],
             OrganizationalUnitIdentifiers = [], TlsRootCerts = [[20]], TlsIntermediateCerts = []\<rparr>]) = 2"
    by simp
  from registry_size[OF test_deps_progress, of 500 "[test_org1, test_org2]"] test_deps_progress l s c
  show ?thesis by blast
qed

end
